theory Spec2Isabelle
  imports Complex_Main "HOL-Library.Log_Nat"
begin

section \<open>JavaScript values\<close>

text \<open>
  The replies of the agent are untyped at run time (\<open>parseLLMJson\<close> returns \<open>any\<close>), so
  they are modelled as JavaScript values. Numbers are exact rationals; an object is an
  association list read with \<open>map_of\<close>.
\<close>

datatype js =
    JUndefined
  | JNull
  | JBool bool
  | JNum rat
  | JStr string
  | JArr "js list"
  | JObj "(string \<times> js) list"

text \<open>Truthiness, as \<open>if (x)\<close> and \<open>x || y\<close> test it.\<close>

fun truthy :: "js \<Rightarrow> bool" where
  "truthy JUndefined = False"
| "truthy JNull = False"
| "truthy (JBool b) = b"
| "truthy (JNum n) = (n \<noteq> 0)"
| "truthy (JStr s) = (s \<noteq> [])"
| "truthy (JArr xs) = True"
| "truthy (JObj kvs) = True"

text \<open>\<open>a || b\<close>.\<close>

definition js_or :: "js \<Rightarrow> js \<Rightarrow> js" where
  "js_or a b = (if truthy a then a else b)"

text \<open>
  \<open>v.f\<close>: reading a property of \<open>undefined\<close> or \<open>null\<close> throws a TypeError (\<open>None\<close>);
  a missing property reads as \<open>undefined\<close>. Arrays and strings have \<open>length\<close>.
\<close>

fun get_prop :: "js \<Rightarrow> string \<Rightarrow> js option" where
  "get_prop JUndefined f = None"
| "get_prop JNull f = None"
| "get_prop (JObj kvs) f = Some (case map_of kvs f of Some v \<Rightarrow> v | None \<Rightarrow> JUndefined)"
| "get_prop (JArr xs) f = Some (if f = ''length'' then JNum (of_nat (length xs)) else JUndefined)"
| "get_prop (JStr s) f = Some (if f = ''length'' then JNum (of_nat (length s)) else JUndefined)"
| "get_prop (JBool b) f = Some JUndefined"
| "get_prop (JNum n) f = Some JUndefined"

text \<open>\<open>v?.f\<close>: \<open>undefined\<close> where \<open>v.f\<close> would throw.\<close>

definition opt_chain :: "js \<Rightarrow> string \<Rightarrow> js" where
  "opt_chain v f = (case get_prop v f of None \<Rightarrow> JUndefined | Some x \<Rightarrow> x)"

section \<open>JavaScript numbers\<close>

text \<open>
  A number is an IEEE 754 double: a finite value, \<open>NaN\<close> or an infinity (the sign of zero
  is not kept). \<open>to_double\<close> rounds an exact result to the nearest double, ties to the even
  mantissa: the quantum is \<open>2 ^ (e - 52)\<close> for a value in \<open>[2 ^ e, 2 ^ (e + 1))\<close>, never
  below \<open>2 ^ (- 1074)\<close>, and a result of \<open>2 ^ 1024\<close> or more is an infinity.
\<close>

datatype jsnum = Fin rat | NaN | PosInf | NegInf









section \<open>The environment of a call\<close>

text \<open>
  Decimal rendering of a timestamp inside a template literal.
\<close>

definition digit_char :: "nat \<Rightarrow> char" where
  "digit_char d =
     (if d = 0 then CHR ''0'' else if d = 1 then CHR ''1'' else if d = 2 then CHR ''2''
      else if d = 3 then CHR ''3'' else if d = 4 then CHR ''4'' else if d = 5 then CHR ''5''
      else if d = 6 then CHR ''6'' else if d = 7 then CHR ''7'' else if d = 8 then CHR ''8''
      else CHR ''9'')"

fun show_nat :: "nat \<Rightarrow> string" where
  "show_nat n = (if n < 10 then [digit_char n] else show_nat (n div 10) @ [digit_char (n mod 10)])"

declare show_nat.simps [simp del]

text \<open>
  The outcome of the single \<open>fetch\<close> of a call: the promise rejects, or a response with a
  body text arrives.
\<close>

datatype fetch_outcome = NetworkError | Responded string

text \<open>
  Everything a call reads from outside the component. \<open>Date_now i\<close> is the \<open>i\<close>-th reading
  of \<open>Date.now()\<close> during the call, \<open>toISOString i\<close> the \<open>i\<close>-th
  \<open>new Date().toISOString()\<close>, \<open>random_suffix\<close> the value of
  \<open>Math.random().toString(36).substr(2, 9)\<close>. \<open>JSON_parse\<close>, \<open>JSON_stringify\<close> and
  \<open>String_of\<close> (the conversion inside template literals) are the platform's.
  \<open>parseLLMJson\<close> is the helper imported from \<open>./utils/jsonParser\<close>, a file that is
  missing from the sources: the gateway is verified for every behaviour of it, a throw
  (\<open>None\<close>) included.
\<close>

record env =
  Date_now :: "nat \<Rightarrow> nat"
  toISOString :: "nat \<Rightarrow> string"
  random_suffix :: string
  fetch_result :: fetch_outcome
  JSON_parse :: "string \<Rightarrow> js option"
  JSON_stringify :: "js \<Rightarrow> string"
  String_of :: "js \<Rightarrow> string"
  parseLLMJson :: "js \<Rightarrow> js option"

text \<open>\<open>await fetch(...)\<close> followed by \<open>await response.json()\<close>; \<open>None\<close> when either throws.\<close>

definition response_json :: "env \<Rightarrow> js option" where
  "response_json E =
     (case fetch_result E of NetworkError \<Rightarrow> None | Responded b \<Rightarrow> JSON_parse E b)"

text \<open>\<open>await fetch(...)\<close> followed by \<open>await response.text()\<close>.\<close>

definition response_text :: "env \<Rightarrow> string option" where
  "response_text E =
     (case fetch_result E of NetworkError \<Rightarrow> None | Responded b \<Rightarrow> Some b)"

section \<open>Requests and the transcript\<close>

text \<open>
  A POST of the gateway. \<open>payload\<close> is the object literal handed to \<open>JSON.stringify\<close> for
  the body; \<open>body_of\<close> is the body on the wire. The two static headers are the same at
  every call site and are left out.
\<close>

record http_post =
  url :: string
  http_method :: string
  payload :: "(string \<times> js) list"

definition body_of :: "env \<Rightarrow> http_post \<Rightarrow> string" where
  "body_of E r = JSON_stringify E (JObj (payload r))"

definition endpoint :: string where
  "endpoint = ''https://agent-prod.studio.lyzr.ai/v3/inference/chat/''"

definition post :: "string \<Rightarrow> string \<Rightarrow> string \<Rightarrow> string \<Rightarrow> http_post" where
  "post userId agentId sessionId message =
     \<lparr>url = endpoint, http_method = ''POST'',
      payload = [(''user_id'', JStr userId), (''agent_id'', JStr agentId),
                 (''session_id'', JStr sessionId), (''message'', JStr message)]\<rparr>"

datatype chat_role = User | Assistant

text \<open>A transcript entry: \<open>role\<close>, \<open>content\<close> and whatever other fields the call site adds.\<close>

record chat_entry =
  role :: chat_role
  content :: js
  extras :: "(string \<times> js) list"

definition LEARN_AGENT_ID :: string where
  "LEARN_AGENT_ID = ''68e06493010a31eba989047d''"

definition EVAL_AGENT_ID :: string where
  "EVAL_AGENT_ID = ''68e064a097fff316128efaa2''"

definition newline :: string where
  "newline = [CHR 0x0A]"

section \<open>State of the module-based application\<close>

datatype user_role = HR | Employee

record user =
  u_id :: string
  email :: string
  u_name :: string
  u_role :: user_role
  organization :: "string option"

datatype question_type = MultipleChoice | TrueFalse | ShortAnswer

record quiz_question =
  q_id :: string
  question :: js
  q_type :: question_type
  options :: "string list option"
  correctAnswer :: js
  explanation :: "string option"

record module =
  m_id :: string
  title :: string
  description :: string
  m_content :: string
  quiz :: "quiz_question list"
  assignedTo :: "string list"
  createdBy :: string
  createdAt :: string
  m_updatedAt :: "string option"
  isActive :: "bool option"

record enrollment =
  e_id :: string
  userId :: string
  moduleId :: string
  progress :: rat
  completed :: bool
  score :: "jsnum option"
  startedAt :: string
  completedAt :: "string option"
  answers :: "js option"
  e_updatedAt :: "string option"

record grade_results =
  g_score :: js
  g_total :: rat
  g_feedback :: js
  g_gaps :: js

record module_form =
  f_title :: string
  f_description :: string
  f_content :: string
  f_quiz :: "quiz_question list"

record lms_state =
  currentUser :: "user option"
  modules :: "module list"
  enrollments :: "enrollment list"
  agentChat :: "chat_entry list"
  isTyping :: bool
  currentQuiz :: "quiz_question list option"
  currentQuizIndex :: nat
  isGrading :: bool
  gradeResults :: "grade_results option"
  moduleForm :: module_form
  assignedUsers :: "string list"
  showCreateModule :: bool
  localStorage :: "string \<rightharpoonup> string"

section \<open>The agent gateway of the module-based application\<close>

datatype request_type = Explanation | Simplification | Qanda

definition request_type_str :: "request_type \<Rightarrow> string" where
  "request_type_str t =
     (case t of Explanation \<Rightarrow> ''explanation'' | Simplification \<Rightarrow> ''simplification''
      | Qanda \<Rightarrow> ''qanda'')"

text \<open>
  Every gateway function returns the new state and the list of POSTs it issued. The body of
  its \<open>try\<close> is an \<open>option\<close>: \<open>None\<close> is a throw, handled by the \<open>catch\<close> branch.
  A state setter that is given a value takes effect at the call. One that is given an
  updater function only queues it: the updater runs when the component renders next,
  outside the \<open>try\<close> of the handler. An updater that throws there raises an uncaught
  TypeError and stores nothing: the outcome is \<open>Threw\<close>, with the state of the last
  render.
\<close>

datatype 'a outcome = Returned 'a | Threw 'a

text \<open>\<open>callLearnAgent\<close>, first definition (three parameters, structured envelope).\<close>

definition learn_placeholder :: string where
  "learn_placeholder =
     ''I understand your question but need more context from the module content to provide a specific answer.''"

definition learn_error_message :: string where
  "learn_error_message =
     ''I'' @ [CHR 0x27] @ ''m having trouble processing your request right now. Please try again in a moment.''"

definition callLearnAgent ::
  "env \<Rightarrow> string \<Rightarrow> string \<Rightarrow> request_type \<Rightarrow> lms_state \<Rightarrow> lms_state \<times> http_post list" where
  "callLearnAgent E userMessage moduleContent requestType s =
     (let s1 = s\<lparr>isTyping := True\<rparr>;
          userId = ''user_'' @ show_nat (Date_now E 0) @ ''_'' @ random_suffix E;
          sessionId = ''learn_'' @ LEARN_AGENT_ID @ ''_'' @ show_nat (Date_now E 1);
          agentMessage = JObj [(''module_content'', JStr moduleContent),
                               (''user_query'', JStr userMessage),
                               (''request_type'', JStr (request_type_str requestType))];
          request = post userId LEARN_AGENT_ID sessionId (JSON_stringify E agentMessage);
          userEntry = \<lparr>role = User, content = JStr userMessage,
                       extras = [(''timestamp'', JStr (toISOString E 0)),
                                 (''requestType'', JStr (request_type_str requestType))]\<rparr>;
          s2 = (case Option.bind (response_json E) (parseLLMJson E) of
                  Some parsedResponse \<Rightarrow>
                    (let response = opt_chain parsedResponse ''response'' in
                     s1\<lparr>agentChat := agentChat s1 @
                        [userEntry,
                         \<lparr>role = Assistant,
                          content = js_or (opt_chain response ''content'') (JStr learn_placeholder),
                          extras = [(''timestamp'', JStr (toISOString E 1)),
                                    (''confidence'', js_or (opt_chain response ''confidence'') (JNum 0)),
                                    (''sourceSection'',
                                       js_or (opt_chain (opt_chain response ''source_reference'') ''section'')
                                             (JStr ''General''))]\<rparr>]\<rparr>)
                | None \<Rightarrow>
                    s1\<lparr>agentChat := agentChat s1 @
                       [userEntry,
                        \<lparr>role = Assistant, content = JStr learn_error_message,
                         extras = [(''timestamp'', JStr (toISOString E 1)),
                                   (''confidence'', JNum 0),
                                   (''sourceSection'', JStr ''Error'')]\<rparr>]\<rparr>)
      in (s2\<lparr>isTyping := False\<rparr>, [request]))"

text \<open>
  \<open>callLearnAgent\<close>, second definition (two parameters, plain-text message); the same text
  is the \<open>callLearnAgent\<close> of the other copy of the application. The updater of its \<open>try\<close>
  reads \<open>parsedResponse.response\<close> without \<open>?.\<close>: with a \<open>null\<close> or \<open>undefined\<close> reply it
  throws when it runs, the \<open>catch\<close> is not reached and no entry is appended.
\<close>

definition callLearnAgent2 ::
  "env \<Rightarrow> string \<Rightarrow> string \<Rightarrow> lms_state \<Rightarrow> lms_state outcome \<times> http_post list" where
  "callLearnAgent2 E message moduleContent s =
     (let s1 = s\<lparr>isTyping := True\<rparr>;
          userId = ''user'' @ show_nat (Date_now E 0) @ ''@test.com'';
          sessionId = ''learn-'' @ LEARN_AGENT_ID @ ''-'' @ show_nat (Date_now E 1);
          request = post userId LEARN_AGENT_ID sessionId
                      (''Module content: '' @ moduleContent @ newline @ newline @ ''Question: '' @ message);
          userEntry = \<lparr>role = User, content = JStr message, extras = []\<rparr>
      in (case Option.bind (response_json E) (parseLLMJson E) of
            Some parsedResponse \<Rightarrow>
              (case get_prop parsedResponse ''response'' of
                 Some response \<Rightarrow>
                   Returned (s1\<lparr>agentChat := agentChat s1 @
                      [userEntry,
                       \<lparr>role = Assistant,
                        content = js_or (opt_chain response ''content'') (JStr ''No response''),
                        extras = []\<rparr>],
                      isTyping := False\<rparr>)
               | None \<Rightarrow> Threw s1)
          | None \<Rightarrow>
              Returned (s1\<lparr>agentChat := agentChat s1 @
                 [userEntry,
                  \<lparr>role = Assistant,
                   content = JStr ''Sorry, I encountered an error processing your request.'',
                   extras = []\<rparr>],
                 isTyping := False\<rparr>),
          [request]))"

text \<open>
  \<open>callEvalAgent\<close> (the same text in both copies). Its updater reads
  \<open>parsedResponse.assessment\<close> without \<open>?.\<close>, with the same consequence.
\<close>

definition callEvalAgent ::
  "env \<Rightarrow> string \<Rightarrow> lms_state \<Rightarrow> lms_state outcome \<times> http_post list" where
  "callEvalAgent E content_arg s =
     (let s1 = s\<lparr>isTyping := True\<rparr>;
          userId = ''user'' @ show_nat (Date_now E 0) @ ''@test.com'';
          sessionId = ''eval-'' @ EVAL_AGENT_ID @ ''-'' @ show_nat (Date_now E 1);
          request = post userId EVAL_AGENT_ID sessionId
                      (''Generate assessment questions for this content: '' @ content_arg)
      in (case Option.bind (response_json E) (parseLLMJson E) of
            Some parsedResponse \<Rightarrow>
              (case get_prop parsedResponse ''assessment'' of
                 Some assessment \<Rightarrow>
                   Returned (s1\<lparr>agentChat := agentChat s1 @
                      [\<lparr>role = Assistant,
                        content = JStr (''Generated ''
                           @ String_of E (js_or (opt_chain (opt_chain assessment ''questions'') ''length'') (JNum 0))
                           @ '' questions. Score: ''
                           @ String_of E (js_or (opt_chain (opt_chain assessment ''evaluation'') ''score'') (JStr ''N/A''))),
                        extras = []\<rparr>],
                      isTyping := False\<rparr>)
               | None \<Rightarrow> Threw s1)
          | None \<Rightarrow>
              Returned (s1\<lparr>agentChat := agentChat s1 @
                 [\<lparr>role = Assistant,
                   content = JStr ''Sorry, I encountered an error generating the assessment.'',
                   extras = []\<rparr>],
                 isTyping := False\<rparr>),
          [request]))"

text \<open>
  \<open>generateAssessment\<close>. The callback of \<open>questions.map\<close> reads \<open>q.question\<close> and
  \<open>q.expected_answer\<close>, which throw on a \<open>null\<close> element; \<open>.map\<close> itself exists on
  arrays only, so a truthy \<open>questions\<close> that is no array throws as well. The \<open>i\<close>-th
  callback takes reading \<open>2 + i\<close> of the clock. All three paths \<open>return\<close> before the
  final \<open>setIsTyping(false)\<close>.
\<close>

fun generated_questions :: "env \<Rightarrow> nat \<Rightarrow> js list \<Rightarrow> quiz_question list option" where
  "generated_questions E index [] = Some []"
| "generated_questions E index (q # qs) =
     (case get_prop q ''question'' of
        None \<Rightarrow> None
      | Some qq \<Rightarrow>
         (case get_prop q ''expected_answer'' of
            None \<Rightarrow> None
          | Some ea \<Rightarrow>
             (case generated_questions E (Suc index) qs of
                None \<Rightarrow> None
              | Some rest \<Rightarrow>
                  Some (\<lparr>q_id = ''gen_'' @ show_nat index @ ''_'' @ show_nat (Date_now E (2 + index)),
                         question = js_or qq (JStr ''Generated question''),
                         q_type = TrueFalse,
                         options = None,
                         correctAnswer = js_or ea (JStr ''True''),
                         explanation = Some ''AI-generated question based on course content''\<rparr> # rest))))"

definition js_map_questions :: "env \<Rightarrow> js \<Rightarrow> quiz_question list option" where
  "js_map_questions E v = (case v of JArr qs \<Rightarrow> generated_questions E 0 qs | _ \<Rightarrow> None)"

definition fallbackQuestions_default :: "quiz_question list" where
  "fallbackQuestions_default =
     [\<lparr>q_id = ''default_1'',
       question = JStr ''What are the key concepts from this learning module?'',
       q_type = ShortAnswer, options = None,
       correctAnswer = JStr ''Analysis of primary concepts based on the provided content'',
       explanation = Some ''Assess understanding of main course concepts''\<rparr>]"

definition fallbackQuestions_error :: "quiz_question list" where
  "fallbackQuestions_error =
     [\<lparr>q_id = ''error_1'',
       question = JStr ''Summarize the main points from this learning module.'',
       q_type = ShortAnswer, options = None,
       correctAnswer = JStr ''Key concepts and insights from the provided learning content'',
       explanation = Some ''Basic comprehension assessment''\<rparr>]"

text \<open>
  The body of the \<open>try\<close>: the state it leaves and the list it returns, or \<open>None\<close> when it
  throws (nothing has been stored by then).
\<close>

definition generateAssessment_try ::
  "env \<Rightarrow> lms_state \<Rightarrow> (lms_state \<times> quiz_question list) option" where
  "generateAssessment_try E s1 =
     (case Option.bind (response_json E) (parseLLMJson E) of
        None \<Rightarrow> None
      | Some parsedResponse \<Rightarrow>
         (let questions = opt_chain (opt_chain parsedResponse ''assessment'') ''questions'' in
          if truthy questions then
            (case js_map_questions E questions of
               None \<Rightarrow> None
             | Some generatedQuestions \<Rightarrow>
                 Some (s1\<lparr>currentQuiz := Some generatedQuestions, currentQuizIndex := 0,
                          gradeResults := None\<rparr>, generatedQuestions))
          else Some (s1\<lparr>currentQuiz := Some fallbackQuestions_default\<rparr>, fallbackQuestions_default)))"

definition generateAssessment ::
  "env \<Rightarrow> string \<Rightarrow> lms_state \<Rightarrow> (lms_state \<times> quiz_question list) \<times> http_post list" where
  "generateAssessment E moduleContent s =
     (let s1 = s\<lparr>isTyping := True\<rparr>;
          userId = ''hr_'' @ show_nat (Date_now E 0) @ ''_'' @ random_suffix E;
          sessionId = ''eval_'' @ EVAL_AGENT_ID @ ''_'' @ show_nat (Date_now E 1);
          agentMessage = JObj [(''module_content'', JStr moduleContent),
                               (''assessment_type'', JStr ''quiz''),
                               (''history'', JStr [])];
          request = post userId EVAL_AGENT_ID sessionId (JSON_stringify E agentMessage)
      in (case generateAssessment_try E s1 of
            Some r \<Rightarrow> r
          | None \<Rightarrow> (s1\<lparr>currentQuiz := Some fallbackQuestions_error\<rparr>, fallbackQuestions_error),
          [request]))"

text \<open>
  \<open>evaluateAssessment\<close> (defined twice with the same text). \<open>userResponses\<close> is the list
  \<open>Object.entries\<close> yields. A truthy \<open>evaluation\<close> is neither \<open>undefined\<close> nor \<open>null\<close>,
  so reading its fields cannot throw and \<open>opt_chain\<close> is the plain property read there.
  The function returns an object on the two paths of the \<open>try\<close>, which leave
  \<open>isGrading\<close> set, and \<open>undefined\<close> after the \<open>catch\<close>.
\<close>

fun join :: "string \<Rightarrow> string list \<Rightarrow> string" where
  "join sep [] = []"
| "join sep [x] = x"
| "join sep (x # y # ys) = x @ sep @ join sep (y # ys)"

definition thank_you :: string where
  "thank_you = ''Thank you for completing the assessment.''"

definition grade_no_evaluation :: grade_results where
  "grade_no_evaluation =
     \<lparr>g_score = JNum 75, g_total = 100,
      g_feedback = JStr ''Good effort on the assessment. Here are some areas for improvement:'',
      g_gaps = JArr
        [JObj [(''topic'', JStr ''Content comprehension''),
               (''recommendation'', JStr ''Review the module content more thoroughly'')],
         JObj [(''topic'', JStr ''Application of concepts''),
               (''recommendation'', JStr ''Practice applying learned concepts to new scenarios'')]]\<rparr>"

definition grade_error :: grade_results where
  "grade_error =
     \<lparr>g_score = JNum 60, g_total = 100,
      g_feedback = JStr ''Assessment evaluation encountered an error. Based on your responses, focus on reviewing the core module concepts.'',
      g_gaps = JArr
        [JObj [(''topic'', JStr ''System processing''),
               (''recommendation'', JStr ''Please retry the assessment or contact support'')]]\<rparr>"

definition evaluateAssessment ::
  "env \<Rightarrow> string \<Rightarrow> (string \<times> js) list \<Rightarrow> string option \<Rightarrow> lms_state
     \<Rightarrow> (lms_state \<times> js) \<times> http_post list" where
  "evaluateAssessment E moduleContent userResponses history s =
     (let s1 = s\<lparr>isGrading := True\<rparr>;
          userId = ''student_'' @ show_nat (Date_now E 0) @ ''_'' @ random_suffix E;
          sessionId = ''eval_'' @ EVAL_AGENT_ID @ ''_'' @ show_nat (Date_now E 1);
          answersString =
            join ''; '' (map (\<lambda>(questionId, answer). questionId @ '': '' @ String_of E answer) userResponses);
          agentMessage = JObj [(''module_content'', JStr moduleContent),
                               (''assessment_type'', JStr ''evaluation''),
                               (''user_response'', JStr answersString),
                               (''history'', JStr (case history of None \<Rightarrow> [] | Some h \<Rightarrow> h))];
          request = post userId EVAL_AGENT_ID sessionId (JSON_stringify E agentMessage)
      in (case Option.bind (response_json E) (parseLLMJson E) of
            Some parsedResponse \<Rightarrow>
              (let evaluation = opt_chain (opt_chain parsedResponse ''assessment'') ''evaluation'' in
               if truthy evaluation then
                 (s1\<lparr>gradeResults := Some
                       \<lparr>g_score = js_or (opt_chain evaluation ''score'') (JNum 0),
                        g_total = 100,
                        g_feedback = js_or (opt_chain evaluation ''feedback'') (JStr thank_you),
                        g_gaps = js_or (opt_chain evaluation ''gaps_identified'') (JArr [])\<rparr>\<rparr>,
                  JObj [(''score'', js_or (opt_chain evaluation ''score'') (JNum 0)),
                        (''feedback'', opt_chain evaluation ''feedback''),
                        (''gaps'', js_or (opt_chain evaluation ''gaps_identified'') (JArr []))])
               else
                 (s1\<lparr>gradeResults := Some grade_no_evaluation\<rparr>,
                  JObj [(''score'', JNum 75), (''feedback'', JStr ''Assessment completed''),
                        (''gaps'', JArr [])]))
          | None \<Rightarrow> (s1\<lparr>gradeResults := Some grade_error, isGrading := False\<rparr>, JUndefined),
          [request]))"

section \<open>The course-based application\<close>

text \<open>
  The third copy (\<open>App.tsx\<close>) keeps courses with lessons, one chat transcript and a session
  id that an effect sets once, when the component mounts.
\<close>

record assessment_question =
  aq_id :: string
  aq_text :: string

record lesson =
  l_id :: string
  l_title :: string
  l_content :: string
  assessment :: "assessment_question list option"

record course =
  c_id :: string
  c_title :: string
  lessons :: "lesson list"

record course_state =
  courses :: "course list"
  currentLesson :: "lesson option"
  chatMessages :: "chat_entry list"
  isChatLoading :: bool
  sessionId :: string

text \<open>The mount effect: the only place the session id is built.\<close>

definition mount_session :: "env \<Rightarrow> course_state \<Rightarrow> course_state" where
  "mount_session E s =
     s\<lparr>sessionId := ''session-'' @ show_nat (Date_now E 0) @ ''-'' @ random_suffix E\<rparr>"

text \<open>
  \<open>callAgent\<close>: the parsed reply, or \<open>null\<close> when anything in the \<open>try\<close> throws. The helper
  receives the body text here.
\<close>

definition callAgent :: "env \<Rightarrow> course_state \<Rightarrow> string \<Rightarrow> string \<Rightarrow> js \<times> http_post list" where
  "callAgent E s agentId message =
     (let userId = ''user-'' @ show_nat (Date_now E 0) @ ''-'' @ random_suffix E;
          request = post userId agentId (sessionId s) message
      in (case Option.bind (response_text E) (\<lambda>data. parseLLMJson E (JStr data)) of
            Some parsed \<Rightarrow> parsed
          | None \<Rightarrow> JNull,
          [request]))"

text \<open>
  The updaters of the two handlers of this copy read a field of \<open>response.result\<close>: with
  a reply that has no \<open>result\<close> they throw when they run, and the outcome is \<open>Threw\<close>.
\<close>

definition quote :: string where
  "quote = [CHR 0x22]"

definition handleLearningQuestion ::
  "env \<Rightarrow> string \<Rightarrow> course_state \<Rightarrow> course_state outcome \<times> http_post list" where
  "handleLearningQuestion E question_arg s =
     (case currentLesson s of
        None \<Rightarrow> (Returned s, [])
      | Some lesson \<Rightarrow>
         (let s1 = s\<lparr>isChatLoading := True\<rparr>;
              s2 = s1\<lparr>chatMessages := chatMessages s1 @
                      [\<lparr>role = User, content = JStr question_arg, extras = []\<rparr>]\<rparr>;
              (response, requests) =
                 callAgent E s ''68e0e0af615699d53b623bae''
                   (''Lesson: '' @ quote @ l_title lesson @ quote @ newline @ ''Content: '' @ l_content lesson
                    @ newline @ newline @ ''Question: '' @ question_arg)
          in if truthy response then
               (case get_prop (opt_chain response ''result'') ''response'' of
                  None \<Rightarrow> (Threw s2, requests)
                | Some r \<Rightarrow>
                   (let result = opt_chain response ''result'' in
                    (Returned (s2\<lparr>chatMessages := chatMessages s2 @
                        [\<lparr>role = Assistant,
                          content = js_or r (JStr ''I could not process your question at the moment.''),
                          extras = [(''key_points'', opt_chain result ''key_points''),
                                    (''suggested_followup'', opt_chain result ''suggested_followup'')]\<rparr>],
                        isChatLoading := False\<rparr>), requests)))
             else (Returned (s2\<lparr>isChatLoading := False\<rparr>), requests)))"

text \<open>
  \<open>evaluateAssessment\<close> of this copy. \<open>answers\<close> is the list \<open>Object.entries\<close> yields. It
  returns \<open>null\<close> early, with the loading flag still set, when the lesson or its assessment
  is missing.
\<close>

definition find_lesson :: "course_state \<Rightarrow> string \<Rightarrow> string \<Rightarrow> (course \<times> lesson) option" where
  "find_lesson s courseId lessonId =
     (case find (\<lambda>c. c_id c = courseId) (courses s) of
        None \<Rightarrow> None
      | Some c \<Rightarrow>
         (case find (\<lambda>l. l_id l = lessonId) (lessons c) of
            None \<Rightarrow> None
          | Some l \<Rightarrow> Some (c, l)))"

definition answer_line :: "assessment_question list \<Rightarrow> string \<times> string \<Rightarrow> string" where
  "answer_line questions = (\<lambda>(qid, ans).
     ''Question '' @ qid @ '': ''
       @ (case find (\<lambda>q. aq_id q = qid) questions of None \<Rightarrow> ''undefined'' | Some q \<Rightarrow> aq_text q)
       @ newline @ ''Answer: '' @ ans)"

definition evaluateAssessment_course ::
  "env \<Rightarrow> string \<Rightarrow> string \<Rightarrow> (string \<times> string) list \<Rightarrow> course_state
     \<Rightarrow> (course_state outcome \<times> js) \<times> http_post list" where
  "evaluateAssessment_course E courseId lessonId answers_arg s =
     (let s1 = s\<lparr>isChatLoading := True\<rparr> in
      case find_lesson s courseId lessonId of
        None \<Rightarrow> ((Returned s1, JNull), [])
      | Some (course, lesson) \<Rightarrow>
         (case assessment lesson of
            None \<Rightarrow> ((Returned s1, JNull), [])
          | Some questions \<Rightarrow>
             (let answerText = join (newline @ newline) (map (answer_line questions) answers_arg);
                  (response, requests) =
                     callAgent E s ''68e0e0bc615699d53e623bae''
                       (''Assessment for lesson '' @ quote @ l_title lesson @ quote @ '' in course ''
                        @ quote @ c_title course @ quote @ newline @ newline @ ''Answers:'' @ newline
                        @ answerText)
              in if truthy response then
                   (case get_prop (opt_chain response ''result'') ''summary'' of
                      None \<Rightarrow> ((Threw s1, JUndefined), requests)
                    | Some summary \<Rightarrow>
                       (let result = opt_chain response ''result'' in
                        ((Returned (s1\<lparr>chatMessages := chatMessages s1 @
                            [\<lparr>role = Assistant,
                              content = js_or summary
                                 (JStr (''Assessment completed! Score: ''
                                        @ String_of E (opt_chain result ''score'') @ ''/100'')),
                              extras = [(''score'', opt_chain result ''score''),
                                        (''feedback'', opt_chain result ''question_feedback'')]\<rparr>],
                            isChatLoading := False\<rparr>), response), requests)))
                 else ((Returned (s1\<lparr>isChatLoading := False\<rparr>), response), requests))))"

section \<open>Modules, enrollments and local storage (module-based application)\<close>

text \<open>
  The actions take \<open>JSON.stringify\<close> at the type of the array they store. \<open>None\<close> is the
  TypeError of \<open>currentUser!.id\<close> with nobody signed in; it is raised before any state is
  set.
\<close>

definition generateRandomId :: "env \<Rightarrow> string" where
  "generateRandomId E = random_suffix E"

definition empty_form :: module_form where
  "empty_form = \<lparr>f_title = [], f_description = [], f_content = [], f_quiz = []\<rparr>"

definition createModule :: "(module list \<Rightarrow> string) \<Rightarrow> env \<Rightarrow> lms_state \<Rightarrow> lms_state option" where
  "createModule stringify E s =
     (case currentUser s of
        None \<Rightarrow> None
      | Some u \<Rightarrow>
         (let newModule =
                \<lparr>m_id = generateRandomId E, title = f_title (moduleForm s),
                 description = f_description (moduleForm s), m_content = f_content (moduleForm s),
                 quiz = f_quiz (moduleForm s), assignedTo = assignedUsers s, createdBy = u_id u,
                 createdAt = toISOString E 0, m_updatedAt = Some (toISOString E 1),
                 isActive = Some True\<rparr>;
              updatedModules = modules s @ [newModule]
          in Some (s\<lparr>modules := updatedModules,
                     localStorage := (localStorage s)(''hr_modules_v2'' \<mapsto> stringify updatedModules),
                     moduleForm := empty_form, assignedUsers := [], showCreateModule := False\<rparr>)))"

text \<open>\<open>e.userId === currentUser?.id\<close>.\<close>

definition is_current_user :: "lms_state \<Rightarrow> enrollment \<Rightarrow> bool" where
  "is_current_user s e = (case currentUser s of None \<Rightarrow> False | Some u \<Rightarrow> userId e = u_id u)"

text \<open>\<open>enrollInModule\<close>, first definition: guarded, and written through to storage.\<close>

definition enrollInModule ::
  "(enrollment list \<Rightarrow> string) \<Rightarrow> env \<Rightarrow> string \<Rightarrow> lms_state \<Rightarrow> lms_state option" where
  "enrollInModule stringify E moduleId_arg s =
     (let existingEnrollments = filter (is_current_user s) (enrollments s) in
      if list_ex (\<lambda>e. moduleId e = moduleId_arg) existingEnrollments then Some s
      else
        (case currentUser s of
           None \<Rightarrow> None
         | Some u \<Rightarrow>
            (let newEnrollment =
                   \<lparr>e_id = generateRandomId E, userId = u_id u, moduleId = moduleId_arg,
                    progress = 0, completed = False, score = None,
                    startedAt = toISOString E 0, completedAt = None,
                    answers = Some (JArr []), e_updatedAt = None\<rparr>;
                 updatedEnrollments = enrollments s @ [newEnrollment]
             in Some (s\<lparr>enrollments := updatedEnrollments,
                        localStorage := (localStorage s)
                          (''hr_enrollments_v2'' \<mapsto> stringify updatedEnrollments)\<rparr>))))"

text \<open>
  \<open>updateProgress\<close> and \<open>completeEnrollment\<close>, first definitions. Each matching element
  takes its own clock reading, counted by \<open>k\<close>.
\<close>

fun progress_map :: "env \<Rightarrow> nat \<Rightarrow> string \<Rightarrow> rat \<Rightarrow> enrollment list \<Rightarrow> enrollment list" where
  "progress_map E k enrollmentId p [] = []"
| "progress_map E k enrollmentId p (e # es) =
     (if e_id e = enrollmentId
      then e\<lparr>progress := p, e_updatedAt := Some (toISOString E k)\<rparr>
             # progress_map E (Suc k) enrollmentId p es
      else e # progress_map E k enrollmentId p es)"

definition updateProgress ::
  "(enrollment list \<Rightarrow> string) \<Rightarrow> env \<Rightarrow> string \<Rightarrow> rat \<Rightarrow> lms_state \<Rightarrow> lms_state" where
  "updateProgress stringify E enrollmentId p s =
     (let updatedEnrollments = progress_map E 0 enrollmentId p (enrollments s)
      in s\<lparr>enrollments := updatedEnrollments,
           localStorage := (localStorage s)(''hr_enrollments_v2'' \<mapsto> stringify updatedEnrollments)\<rparr>)"

fun complete_map :: "env \<Rightarrow> nat \<Rightarrow> string \<Rightarrow> jsnum \<Rightarrow> js \<Rightarrow> enrollment list \<Rightarrow> enrollment list" where
  "complete_map E k enrollmentId sc ans [] = []"
| "complete_map E k enrollmentId sc ans (e # es) =
     (if e_id e = enrollmentId
      then e\<lparr>progress := 100, completed := True, completedAt := Some (toISOString E k),
              score := Some sc, answers := Some ans\<rparr>
             # complete_map E (Suc k) enrollmentId sc ans es
      else e # complete_map E k enrollmentId sc ans es)"

definition completeEnrollment ::
  "(enrollment list \<Rightarrow> string) \<Rightarrow> env \<Rightarrow> string \<Rightarrow> jsnum \<Rightarrow> js \<Rightarrow> lms_state \<Rightarrow> lms_state" where
  "completeEnrollment stringify E enrollmentId sc ans s =
     (let updatedEnrollments = complete_map E 0 enrollmentId sc ans (enrollments s)
      in s\<lparr>enrollments := updatedEnrollments,
           localStorage := (localStorage s)(''hr_enrollments_v2'' \<mapsto> stringify updatedEnrollments)\<rparr>)"

text \<open>
  \<open>enrollInModule\<close> and \<open>updateProgress\<close>, second definitions (the same text is the other
  copy's): no guard, and no write to storage.
\<close>

definition enrollInModule2 :: "env \<Rightarrow> string \<Rightarrow> lms_state \<Rightarrow> lms_state option" where
  "enrollInModule2 E moduleId_arg s =
     (case currentUser s of
        None \<Rightarrow> None
      | Some u \<Rightarrow>
         (let newEnrollment =
                \<lparr>e_id = generateRandomId E, userId = u_id u, moduleId = moduleId_arg,
                 progress = 0, completed = False, score = None,
                 startedAt = toISOString E 0, completedAt = None,
                 answers = None, e_updatedAt = None\<rparr>
          in Some (s\<lparr>enrollments := enrollments s @ [newEnrollment]\<rparr>)))"

definition updateProgress2 :: "string \<Rightarrow> rat \<Rightarrow> lms_state \<Rightarrow> lms_state" where
  "updateProgress2 enrollmentId p s =
     s\<lparr>enrollments := map (\<lambda>e. if e_id e = enrollmentId then e\<lparr>progress := p\<rparr> else e) (enrollments s)\<rparr>"

text \<open>
  The other copy of the application: its \<open>createModule\<close> sets state only, and two effects,
  run after a render in which their array changed, write the arrays to storage.
\<close>

definition createModule_plain :: "env \<Rightarrow> lms_state \<Rightarrow> lms_state option" where
  "createModule_plain E s =
     (case currentUser s of
        None \<Rightarrow> None
      | Some u \<Rightarrow>
         (let newModule =
                \<lparr>m_id = generateRandomId E, title = f_title (moduleForm s),
                 description = f_description (moduleForm s), m_content = f_content (moduleForm s),
                 quiz = f_quiz (moduleForm s), assignedTo = [], createdBy = u_id u,
                 createdAt = toISOString E 0, m_updatedAt = None, isActive = None\<rparr>
          in Some (s\<lparr>modules := modules s @ [newModule], moduleForm := empty_form,
                     showCreateModule := False\<rparr>)))"

definition save_modules_effect :: "(module list \<Rightarrow> string) \<Rightarrow> lms_state \<Rightarrow> lms_state" where
  "save_modules_effect stringify s =
     s\<lparr>localStorage := (localStorage s)(''hr_modules'' \<mapsto> stringify (modules s))\<rparr>"

definition save_enrollments_effect :: "(enrollment list \<Rightarrow> string) \<Rightarrow> lms_state \<Rightarrow> lms_state" where
  "save_enrollments_effect stringify s =
     s\<lparr>localStorage := (localStorage s)(''hr_enrollments'' \<mapsto> stringify (enrollments s))\<rparr>"

text \<open>
  What the employee dashboard renders: an "Enroll Now" button for each module of
  \<open>availableModules\<close>, and the "Enroll in Module" button of the detail view unless
  \<open>already_enrolled\<close>. These buttons are the only callers of \<open>enrollInModule\<close>.
\<close>

definition availableModules :: "lms_state \<Rightarrow> module list" where
  "availableModules s =
     (let myEnrollments = filter (is_current_user s) (enrollments s)
      in filter (\<lambda>m. \<not> list_ex (\<lambda>e. moduleId e = m_id m) myEnrollments) (modules s))"

definition already_enrolled :: "lms_state \<Rightarrow> string \<Rightarrow> bool" where
  "already_enrolled s selected_id =
     list_ex (\<lambda>e. moduleId e = selected_id \<and> is_current_user s e) (enrollments s)"

section \<open>Analytics\<close>





section \<open>The JSON-extraction helper\<close>




section \<open>Notions used by the properties\<close>

text \<open>
  The roles of the entries a call appended, given the transcript before and after it;
  \<open>None\<close> when the old transcript is not a prefix of the new one.
\<close>

definition appended_roles :: "chat_entry list \<Rightarrow> chat_entry list \<Rightarrow> chat_role list option" where
  "appended_roles old new =
     (if take (length old) new = old then Some (map role (drop (length old) new)) else None)"


text \<open>The contents of the entries a call appended.\<close>

definition appended_contents :: "chat_entry list \<Rightarrow> chat_entry list \<Rightarrow> js list" where
  "appended_contents old new = map content (drop (length old) new)"

fun state_of :: "'a outcome \<Rightarrow> 'a" where
  "state_of (Returned s) = s"
| "state_of (Threw s) = s"

text \<open>A field of the object that becomes the body of a POST.\<close>

definition payload_field :: "string \<Rightarrow> http_post \<Rightarrow> js" where
  "payload_field k r = (case map_of (payload r) k of Some v \<Rightarrow> v | None \<Rightarrow> JUndefined)"

definition is_str :: "js \<Rightarrow> bool" where
  "is_str v = (case v of JStr x \<Rightarrow> True | _ \<Rightarrow> False)"

text \<open>
  A POST to the fixed endpoint whose body object has exactly the fields \<open>user_id\<close>,
  \<open>agent_id\<close>, \<open>session_id\<close> and \<open>message\<close>, in this order, all of them strings.
\<close>

definition four_field_post :: "http_post \<Rightarrow> bool" where
  "four_field_post r =
     (url r = endpoint \<and> http_method r = ''POST''
      \<and> map fst (payload r) = [''user_id'', ''agent_id'', ''session_id'', ''message'']
      \<and> list_all is_str (map snd (payload r)))"

text \<open>An id built around a timestamp: \<open>pre\<close>, the decimal timestamp, \<open>suf\<close>.\<close>

definition stamped :: "string \<Rightarrow> nat \<Rightarrow> string \<Rightarrow> string" where
  "stamped pre t suf = pre @ show_nat t @ suf"

definition is_digit :: "char \<Rightarrow> bool" where
  "is_digit c = (c \<in> set ''0123456789'')"

text \<open>A suffix that cannot be taken for more digits of the timestamp.\<close>

definition delimited :: "string \<Rightarrow> bool" where
  "delimited suf = (case suf of [] \<Rightarrow> True | c # r \<Rightarrow> \<not> is_digit c)"




section \<open>Example inputs\<close>

text \<open>
  The state of the freshly mounted component, with nothing in storage, and the same for the
  course-based copy.
\<close>

definition initial_state :: lms_state where
  "initial_state =
     \<lparr>currentUser = None, modules = [], enrollments = [], agentChat = [], isTyping = False,
      currentQuiz = None, currentQuizIndex = 0, isGrading = False, gradeResults = None,
      moduleForm = empty_form, assignedUsers = [], showCreateModule = False,
      localStorage = Map.empty\<rparr>"

definition course_initial_state :: course_state where
  "course_initial_state =
     \<lparr>courses = [], currentLesson = None, chatMessages = [], isChatLoading = False,
      sessionId = []\<rparr>"

text \<open>An environment in which the request fails: \<open>fetch\<close> rejects.\<close>

definition offline_env :: env where
  "offline_env =
     \<lparr>Date_now = (\<lambda>i. 1000), toISOString = (\<lambda>i. ''2025-10-04T09:00:00.000Z''),
      random_suffix = ''k3j9x0q1z'', fetch_result = NetworkError,
      JSON_parse = (\<lambda>b. None), JSON_stringify = (\<lambda>v. ''{}''), String_of = (\<lambda>v. []),
      parseLLMJson = Some\<rparr>"

text \<open>
  An environment in which the agent answers, the body parses to the value \<open>v\<close>, and the
  helper returns \<open>v\<close>.
\<close>

definition reply_env :: "js \<Rightarrow> env" where
  "reply_env v =
     \<lparr>Date_now = (\<lambda>i. 1000), toISOString = (\<lambda>i. ''2025-10-04T09:00:00.000Z''),
      random_suffix = ''k3j9x0q1z'', fetch_result = Responded ''(reply)'',
      JSON_parse = (\<lambda>b. Some v), JSON_stringify = (\<lambda>v. ''{}''), String_of = (\<lambda>v. []),
      parseLLMJson = (\<lambda>d. Some v)\<rparr>"

definition alice :: user where
  "alice = \<lparr>u_id = ''u1'', email = ''alice@example.com'', u_name = ''Alice'', u_role = Employee,
            organization = None\<rparr>"

definition first_enrollment :: enrollment where
  "first_enrollment =
     \<lparr>e_id = ''e1'', userId = ''u1'', moduleId = ''m1'', progress = 0, completed = False,
      score = None, startedAt = ''2025-10-04T09:00:00.000Z'', completedAt = None,
      answers = None, e_updatedAt = None\<rparr>"

text \<open>
  A stand-in for \<open>JSON.stringify\<close> on enrollment arrays in the examples: it writes the id
  and the whole-number part of the progress of each record.
\<close>

definition demo_stringify :: "enrollment list \<Rightarrow> string" where
  "demo_stringify es =
     concat (map (\<lambda>e. e_id e @ ''='' @ show_nat (nat \<lfloor>progress e\<rfloor>) @ '';'') es)"

text \<open>Alice is signed in and enrolled in module \<open>m1\<close>; storage mirrors the array.\<close>

definition enrolled_state :: lms_state where
  "enrolled_state =
     initial_state\<lparr>currentUser := Some alice, enrollments := [first_enrollment],
       localStorage := [''hr_enrollments_v2'' \<mapsto> demo_stringify [first_enrollment]]\<rparr>"





definition fire_safety :: lesson where
  "fire_safety =
     \<lparr>l_id = ''1-1'', l_title = ''Fire Safety'',
      l_content = ''Fire safety is crucial in any workplace.'', assessment = None\<rparr>"

definition lesson_state :: course_state where
  "lesson_state = course_initial_state\<lparr>currentLesson := Some fire_safety\<rparr>"


text \<open>Replies of the agent used in the examples.\<close>

definition reply_empty_feedback :: js where
  "reply_empty_feedback =
     JObj [(''assessment'',
            JObj [(''evaluation'',
                   JObj [(''score'', JNum 80), (''feedback'', JStr []),
                         (''gaps_identified'', JArr [])])])]"

definition reply_no_questions :: js where
  "reply_no_questions = JObj [(''assessment'', JObj [(''questions'', JArr [])])]"

definition reply_bare_evaluation :: js where
  "reply_bare_evaluation = JObj [(''assessment'', JObj [(''evaluation'', JObj [])])]"

definition reply_graded :: js where
  "reply_graded =
     JObj [(''assessment'',
            JObj [(''evaluation'',
                   JObj [(''score'', JNum 92), (''feedback'', JStr ''Well done''),
                         (''gaps_identified'',
                            JArr [JObj [(''topic'', JStr ''Exits''),
                                        (''recommendation'', JStr ''Review the evacuation plan'')]])])])]"

definition reply_result_only :: js where
  "reply_result_only = JObj [(''result'', JObj [(''key_points'', JArr [])])]"

text \<open>A module nobody is enrolled in, and Alice looking at it.\<close>

definition second_module :: module where
  "second_module =
     \<lparr>m_id = ''m2'', title = ''Customer Service Excellence'',
      description = ''Build exceptional customer service skills'',
      m_content = ''Listen actively, speak clearly.'', quiz = [], assignedTo = [],
      createdBy = ''u0'', createdAt = ''2025-10-01T08:00:00.000Z'', m_updatedAt = None,
      isActive = None\<rparr>"

definition browsing_state :: lms_state where
  "browsing_state = enrolled_state\<lparr>modules := [second_module]\<rparr>"

section \<open>Facts about the model\<close>

lemma truthy_get_prop: "truthy v \<Longrightarrow> get_prop v f = Some (opt_chain v f)"
  by (cases v) (simp_all add: opt_chain_def)

lemma appended_roles_append [simp]: "appended_roles old (old @ ys) = Some (map role ys)"
  by (simp add: appended_roles_def)

lemma appended_roles_same [simp]: "appended_roles old old = Some []"
  by (simp add: appended_roles_def)

lemma appended_contents_append [simp]: "appended_contents old (old @ ys) = map content ys"
  by (simp add: appended_contents_def)

subsection \<open>What each call appends to the transcript\<close>




text \<open>With a \<open>null\<close> or \<open>undefined\<close> reply both die at the next render, nothing appended.\<close>

lemma null_reply_uncaught:
  assumes "Option.bind (response_json E) (parseLLMJson E) = Some p" "p = JNull \<or> p = JUndefined"
  shows "fst (callLearnAgent2 E um mc s) = Threw (s\<lparr>isTyping := True\<rparr>)"
    and "fst (callEvalAgent E c s) = Threw (s\<lparr>isTyping := True\<rparr>)"
  using assms by (auto simp: callLearnAgent2_def callEvalAgent_def Let_def)






subsection \<open>The request each call issues\<close>

lemma callLearnAgent_request:
  "snd (callLearnAgent E um mc rt s) =
     [post (''user_'' @ show_nat (Date_now E 0) @ ''_'' @ random_suffix E) LEARN_AGENT_ID
           (''learn_'' @ LEARN_AGENT_ID @ ''_'' @ show_nat (Date_now E 1))
           (JSON_stringify E (JObj [(''module_content'', JStr mc), (''user_query'', JStr um),
                                    (''request_type'', JStr (request_type_str rt))]))]"
  by (simp add: callLearnAgent_def Let_def)

lemma callLearnAgent2_request:
  "snd (callLearnAgent2 E m mc s) =
     [post (''user'' @ show_nat (Date_now E 0) @ ''@test.com'') LEARN_AGENT_ID
           (''learn-'' @ LEARN_AGENT_ID @ ''-'' @ show_nat (Date_now E 1))
           (''Module content: '' @ mc @ newline @ newline @ ''Question: '' @ m)]"
  by (simp add: callLearnAgent2_def Let_def)

lemma callEvalAgent_request:
  "snd (callEvalAgent E c s) =
     [post (''user'' @ show_nat (Date_now E 0) @ ''@test.com'') EVAL_AGENT_ID
           (''eval-'' @ EVAL_AGENT_ID @ ''-'' @ show_nat (Date_now E 1))
           (''Generate assessment questions for this content: '' @ c)]"
  by (simp add: callEvalAgent_def Let_def)

lemma generateAssessment_request:
  "snd (generateAssessment E mc s) =
     [post (''hr_'' @ show_nat (Date_now E 0) @ ''_'' @ random_suffix E) EVAL_AGENT_ID
           (''eval_'' @ EVAL_AGENT_ID @ ''_'' @ show_nat (Date_now E 1))
           (JSON_stringify E (JObj [(''module_content'', JStr mc), (''assessment_type'', JStr ''quiz''),
                                    (''history'', JStr [])]))]"
  by (simp add: generateAssessment_def Let_def)

lemma evaluateAssessment_request:
  "snd (evaluateAssessment E mc ur h s) =
     [post (''student_'' @ show_nat (Date_now E 0) @ ''_'' @ random_suffix E) EVAL_AGENT_ID
           (''eval_'' @ EVAL_AGENT_ID @ ''_'' @ show_nat (Date_now E 1))
           (JSON_stringify E
              (JObj [(''module_content'', JStr mc), (''assessment_type'', JStr ''evaluation''),
                     (''user_response'',
                        JStr (join ''; '' (map (\<lambda>(questionId, answer). questionId @ '': '' @ String_of E answer) ur))),
                     (''history'', JStr (case h of None \<Rightarrow> [] | Some x \<Rightarrow> x))]))]"
  by (simp add: evaluateAssessment_def Let_def)

lemma callAgent_request:
  "snd (callAgent E s a m) =
     [post (''user-'' @ show_nat (Date_now E 0) @ ''-'' @ random_suffix E) a (sessionId s) m]"
  by (simp add: callAgent_def Let_def)

lemma four_field_post_post: "four_field_post (post u a sid m)"
  by (simp add: four_field_post_def post_def is_str_def)

lemma payload_field_post:
  "payload_field ''user_id'' (post u a sid m) = JStr u"
  "payload_field ''agent_id'' (post u a sid m) = JStr a"
  "payload_field ''session_id'' (post u a sid m) = JStr sid"
  "payload_field ''message'' (post u a sid m) = JStr m"
  by (simp_all add: payload_field_def post_def)

lemma handleLearningQuestion_requests:
  "list_all four_field_post (snd (handleLearningQuestion E q s))
   \<and> length (snd (handleLearningQuestion E q s)) \<le> 1"
  by (simp add: handleLearningQuestion_def callAgent_def four_field_post_post Let_def
           split: option.split prod.split)

lemma evaluateAssessment_course_requests:
  "list_all four_field_post (snd (evaluateAssessment_course E c l a s))
   \<and> length (snd (evaluateAssessment_course E c l a s)) \<le> 1"
  by (simp add: evaluateAssessment_course_def callAgent_def four_field_post_post Let_def
           split: option.split prod.split)

subsection \<open>What each call does when the reply fails or lacks its field\<close>

lemma callLearnAgent_on_throw:
  "Option.bind (response_json E) (parseLLMJson E) = None \<Longrightarrow>
   appended_contents (agentChat s) (agentChat (fst (callLearnAgent E um mc rt s)))
     = [JStr um, JStr learn_error_message]"
  by (simp add: callLearnAgent_def Let_def)

lemma callLearnAgent_on_missing:
  "Option.bind (response_json E) (parseLLMJson E) = Some p \<Longrightarrow>
   \<not> truthy (opt_chain (opt_chain p ''response'') ''content'') \<Longrightarrow>
   appended_contents (agentChat s) (agentChat (fst (callLearnAgent E um mc rt s)))
     = [JStr um, JStr learn_placeholder]"
  by (simp add: callLearnAgent_def Let_def js_or_def)

lemma callLearnAgent2_on_throw:
  "Option.bind (response_json E) (parseLLMJson E) = None \<Longrightarrow>
   appended_contents (agentChat s) (agentChat (state_of (fst (callLearnAgent2 E m mc s))))
     = [JStr m, JStr ''Sorry, I encountered an error processing your request.'']"
  by (simp add: callLearnAgent2_def Let_def)

lemma callLearnAgent2_on_missing:
  "Option.bind (response_json E) (parseLLMJson E) = Some p \<Longrightarrow>
   p \<noteq> JNull \<Longrightarrow> p \<noteq> JUndefined \<Longrightarrow>
   \<not> truthy (opt_chain (opt_chain p ''response'') ''content'') \<Longrightarrow>
   appended_contents (agentChat s) (agentChat (state_of (fst (callLearnAgent2 E m mc s))))
     = [JStr m, JStr ''No response'']"
  by (cases p) (simp_all add: callLearnAgent2_def Let_def js_or_def opt_chain_def)

lemma callEvalAgent_on_throw:
  "Option.bind (response_json E) (parseLLMJson E) = None \<Longrightarrow>
   appended_contents (agentChat s) (agentChat (state_of (fst (callEvalAgent E c s))))
     = [JStr ''Sorry, I encountered an error generating the assessment.'']"
  by (simp add: callEvalAgent_def Let_def)

lemma generateAssessment_on_throw:
  "Option.bind (response_json E) (parseLLMJson E) = None \<Longrightarrow>
   currentQuiz (fst (fst (generateAssessment E mc s))) = Some fallbackQuestions_error
   \<and> snd (fst (generateAssessment E mc s)) = fallbackQuestions_error"
  by (simp add: generateAssessment_def generateAssessment_try_def Let_def)

lemma generateAssessment_on_missing:
  "Option.bind (response_json E) (parseLLMJson E) = Some p \<Longrightarrow>
   \<not> truthy (opt_chain (opt_chain p ''assessment'') ''questions'') \<Longrightarrow>
   currentQuiz (fst (fst (generateAssessment E mc s))) = Some fallbackQuestions_default
   \<and> snd (fst (generateAssessment E mc s)) = fallbackQuestions_default"
  by (simp add: generateAssessment_def generateAssessment_try_def Let_def)

lemma evaluateAssessment_on_throw:
  "Option.bind (response_json E) (parseLLMJson E) = None \<Longrightarrow>
   gradeResults (fst (fst (evaluateAssessment E mc ur h s))) = Some grade_error"
  by (simp add: evaluateAssessment_def Let_def)

lemma evaluateAssessment_on_missing:
  "Option.bind (response_json E) (parseLLMJson E) = Some p \<Longrightarrow>
   \<not> truthy (opt_chain (opt_chain p ''assessment'') ''evaluation'') \<Longrightarrow>
   gradeResults (fst (fst (evaluateAssessment E mc ur h s))) = Some grade_no_evaluation"
  by (simp add: evaluateAssessment_def Let_def)

lemma evaluateAssessment_on_evaluation:
  "Option.bind (response_json E) (parseLLMJson E) = Some p \<Longrightarrow>
   opt_chain (opt_chain p ''assessment'') ''evaluation'' = ev \<Longrightarrow> truthy ev \<Longrightarrow>
   gradeResults (fst (fst (evaluateAssessment E mc ur h s))) =
     Some \<lparr>g_score = js_or (opt_chain ev ''score'') (JNum 0), g_total = 100,
           g_feedback = js_or (opt_chain ev ''feedback'') (JStr thank_you),
           g_gaps = js_or (opt_chain ev ''gaps_identified'') (JArr [])\<rparr>"
  by (simp add: evaluateAssessment_def Let_def)

lemma handleLearningQuestion_on_failure:
  "currentLesson s = Some l \<Longrightarrow>
   Option.bind (response_text E) (\<lambda>data. parseLLMJson E (JStr data)) = None \<Longrightarrow>
   fst (handleLearningQuestion E q s) =
     Returned (s\<lparr>chatMessages := chatMessages s @ [\<lparr>role = User, content = JStr q, extras = []\<rparr>],
                 isChatLoading := False\<rparr>)"
  by (simp add: handleLearningQuestion_def callAgent_def Let_def split: prod.split)

lemma handleLearningQuestion_on_missing:
  "currentLesson s = Some l \<Longrightarrow>
   Option.bind (response_text E) (\<lambda>data. parseLLMJson E (JStr data)) = Some p \<Longrightarrow>
   truthy p \<Longrightarrow> truthy (opt_chain p ''result'') \<Longrightarrow>
   \<not> truthy (opt_chain (opt_chain p ''result'') ''response'') \<Longrightarrow>
   appended_contents (chatMessages s) (chatMessages (state_of (fst (handleLearningQuestion E q s))))
     = [JStr q, JStr ''I could not process your question at the moment.'']"
  by (simp add: handleLearningQuestion_def callAgent_def Let_def js_or_def truthy_get_prop
           split: prod.split)

subsection \<open>Timestamps in ids\<close>

lemma digit_char_is_digit: "is_digit (digit_char d)"
  by (simp add: digit_char_def is_digit_def)

lemma digit_char_inj: "a < 10 \<Longrightarrow> b < 10 \<Longrightarrow> digit_char a = digit_char b \<Longrightarrow> a = b"
  unfolding digit_char_def by (simp split: if_splits) arith

lemma show_nat_not_Nil: "show_nat n \<noteq> []"
  by (subst show_nat.simps) simp

lemma show_nat_digits: "list_all is_digit (show_nat n)"
proof (induction n rule: show_nat.induct)
  case (1 n)
  show ?case
  proof (cases "n < 10")
    case True
    then show ?thesis by (subst show_nat.simps) (simp add: digit_char_is_digit)
  next
    case False
    with 1 show ?thesis by (subst show_nat.simps) (simp add: digit_char_is_digit)
  qed
qed

lemma show_nat_length_one: "length (show_nat n) = 1 \<longleftrightarrow> n < 10"
proof (cases "n < 10")
  case True
  then show ?thesis by (subst show_nat.simps) simp
next
  case False
  have "show_nat (n div 10) \<noteq> []" by (rule show_nat_not_Nil)
  then have "length (show_nat (n div 10)) \<noteq> 0" by simp
  with False show ?thesis by (subst show_nat.simps) simp
qed

lemma show_nat_inj: "show_nat n = show_nat m \<Longrightarrow> n = m"
proof (induction n arbitrary: m rule: show_nat.induct)
  case (1 n)
  from "1.prems" have len: "length (show_nat n) = length (show_nat m)" by simp
  show ?case
  proof (cases "n < 10")
    case True
    then have "length (show_nat n) = 1" using show_nat_length_one [of n] by simp
    with len have m: "m < 10" using show_nat_length_one [of m] by simp
    from True m "1.prems" have "digit_char n = digit_char m"
      by (simp add: show_nat.simps [of n] show_nat.simps [of m])
    with True m show ?thesis by (rule digit_char_inj)
  next
    case False
    then have "length (show_nat n) \<noteq> 1" using show_nat_length_one [of n] by simp
    with len have m: "\<not> m < 10" using show_nat_length_one [of m] by simp
    from False m "1.prems"
    have eq: "show_nat (n div 10) @ [digit_char (n mod 10)]
                = show_nat (m div 10) @ [digit_char (m mod 10)]"
      by (simp add: show_nat.simps [of n] show_nat.simps [of m])
    then have a: "show_nat (n div 10) = show_nat (m div 10)"
      and b: "digit_char (n mod 10) = digit_char (m mod 10)" by simp_all
    from "1.IH" [OF False a] have d: "n div 10 = m div 10" .
    have "n mod 10 = m mod 10" by (rule digit_char_inj [OF _ _ b]) simp_all
    with d show ?thesis by (metis div_mult_mod_eq)
  qed
qed

lemma digits_then_delimiter:
  assumes "list_all is_digit xs" "list_all is_digit ys" "delimited r" "delimited r'"
    and "xs @ r = ys @ r'"
  shows "xs = ys"
proof -
  have "takeWhile is_digit (xs @ r) = xs"
    using assms(1,3) by (cases r) (simp_all add: delimited_def list_all_iff)
  moreover have "takeWhile is_digit (ys @ r') = ys"
    using assms(2,4) by (cases r') (simp_all add: delimited_def list_all_iff)
  ultimately show ?thesis using assms(5) by simp
qed

lemma stamped_inj:
  assumes "delimited suf" "delimited suf'" "stamped pre t suf = stamped pre t' suf'"
  shows "t = t'"
proof -
  from assms(3) have "show_nat t @ suf = show_nat t' @ suf'"
    by (simp add: stamped_def)
  then have "show_nat t = show_nat t'"
    using digits_then_delimiter [OF show_nat_digits show_nat_digits assms(1,2)] by blast
  then show ?thesis by (rule show_nat_inj)
qed

subsection \<open>The brace block\<close>



subsection \<open>Rounding to a double\<close>







subsection \<open>The figures of \<open>calculateAnalytics\<close>\<close>









section \<open>The claims\<close>

subsection \<open>C1: what a gateway call appends to the transcript\<close>




subsection \<open>C9: the figures of the analytics\<close>




subsection \<open>C4: the JSON-extraction helper\<close>



subsection \<open>C7: the body of a POST\<close>

text \<open>
  C7: every POST of the gateway goes to the fixed endpoint with a body that serializes an
  object of exactly the four string fields \<open>user_id\<close>, \<open>agent_id\<close>, \<open>session_id\<close> and
  \<open>message\<close>. The message is a JSON-stringified envelope in the first \<open>callLearnAgent\<close>,
  \<open>generateAssessment\<close> and \<open>evaluateAssessment\<close>, and plain text in the second
  \<open>callLearnAgent\<close>, \<open>callEvalAgent\<close> and \<open>callAgent\<close> (through which both handlers of the
  course-based copy post).
\<close>

theorem C7_post_body:
  "list_all four_field_post (snd (callLearnAgent E um mc rt s))
   \<and> map (payload_field ''message'') (snd (callLearnAgent E um mc rt s))
       = [JStr (JSON_stringify E (JObj [(''module_content'', JStr mc), (''user_query'', JStr um),
                                        (''request_type'', JStr (request_type_str rt))]))]
   \<and> list_all four_field_post (snd (callLearnAgent2 E um mc s))
   \<and> map (payload_field ''message'') (snd (callLearnAgent2 E um mc s))
       = [JStr (''Module content: '' @ mc @ newline @ newline @ ''Question: '' @ um)]
   \<and> list_all four_field_post (snd (callEvalAgent E mc s))
   \<and> map (payload_field ''message'') (snd (callEvalAgent E mc s))
       = [JStr (''Generate assessment questions for this content: '' @ mc)]
   \<and> list_all four_field_post (snd (generateAssessment E mc s))
   \<and> map (payload_field ''message'') (snd (generateAssessment E mc s))
       = [JStr (JSON_stringify E (JObj [(''module_content'', JStr mc),
                                        (''assessment_type'', JStr ''quiz''),
                                        (''history'', JStr [])]))]
   \<and> list_all four_field_post (snd (evaluateAssessment E mc ur h s))
   \<and> map (payload_field ''message'') (snd (evaluateAssessment E mc ur h s))
       = [JStr (JSON_stringify E
            (JObj [(''module_content'', JStr mc), (''assessment_type'', JStr ''evaluation''),
                   (''user_response'',
                      JStr (join ''; '' (map (\<lambda>(questionId, answer). questionId @ '': '' @ String_of E answer) ur))),
                   (''history'', JStr (case h of None \<Rightarrow> [] | Some x \<Rightarrow> x))]))]
   \<and> list_all four_field_post (snd (callAgent E cs a m))
   \<and> map (payload_field ''message'') (snd (callAgent E cs a m)) = [JStr m]
   \<and> list_all four_field_post (snd (handleLearningQuestion E q cs))
   \<and> list_all four_field_post (snd (evaluateAssessment_course E cid lid an cs))
   \<and> body_of E (post u a sid m)
       = JSON_stringify E (JObj [(''user_id'', JStr u), (''agent_id'', JStr a),
                                 (''session_id'', JStr sid), (''message'', JStr m)])"
  using handleLearningQuestion_requests [of E q cs]
    evaluateAssessment_course_requests [of E cid lid an cs]
  by (simp add: callLearnAgent_request callLearnAgent2_request callEvalAgent_request
        generateAssessment_request evaluateAssessment_request callAgent_request
        four_field_post_post payload_field_post)
     (simp add: body_of_def post_def)

subsection \<open>C5: user and session ids\<close>

text \<open>
  C5, as stated, fails: two different questions sent through the second
  \<open>callLearnAgent\<close> within the same millisecond carry the same user id and the same
  session id, whatever the random generator yields.
\<close>

theorem C5_same_millisecond_counterexample:
  "map (payload_field ''user_id'')
       (snd (callLearnAgent2 offline_env ''What is a fire drill?'' ''Fire safety'' initial_state))
     = map (payload_field ''user_id'')
       (snd (callLearnAgent2 (offline_env\<lparr>random_suffix := ''zzzzzzzzz''\<rparr>) ''Where is the exit?''
              ''Fire safety'' initial_state))
   \<and> map (payload_field ''session_id'')
       (snd (callLearnAgent2 offline_env ''What is a fire drill?'' ''Fire safety'' initial_state))
     = map (payload_field ''session_id'')
       (snd (callLearnAgent2 (offline_env\<lparr>random_suffix := ''zzzzzzzzz''\<rparr>) ''Where is the exit?''
              ''Fire safety'' initial_state))
   \<and> map (payload_field ''message'')
       (snd (callLearnAgent2 offline_env ''What is a fire drill?'' ''Fire safety'' initial_state))
     \<noteq> map (payload_field ''message'')
       (snd (callLearnAgent2 (offline_env\<lparr>random_suffix := ''zzzzzzzzz''\<rparr>) ''Where is the exit?''
              ''Fire safety'' initial_state))"
  by (simp add: callLearnAgent2_request payload_field_post offline_env_def)

text \<open>
  C5, amended: every call of the module-based gateway builds its two ids anew from the
  clock. The user id is a prefix, the timestamp and then a random suffix (first
  \<open>callLearnAgent\<close>, \<open>generateAssessment\<close>, \<open>evaluateAssessment\<close>) or the fixed
  \<open>@test.com\<close> (second \<open>callLearnAgent\<close>, \<open>callEvalAgent\<close>); the session id is a prefix
  holding the agent id and then the timestamp, with no random part. Ids of one kind
  therefore differ whenever their timestamps differ. \<open>callAgent\<close> of the course-based copy
  builds its user id from timestamp and random suffix at each call, and sends as session
  id the one the mount effect built, once, from timestamp and random suffix.
\<close>

theorem C5_ids:
  "map (payload_field ''user_id'') (snd (callLearnAgent E um mc rt s))
     = [JStr (stamped ''user_'' (Date_now E 0) (''_'' @ random_suffix E))]
   \<and> map (payload_field ''session_id'') (snd (callLearnAgent E um mc rt s))
     = [JStr (stamped (''learn_'' @ LEARN_AGENT_ID @ ''_'') (Date_now E 1) [])]
   \<and> map (payload_field ''user_id'') (snd (callLearnAgent2 E um mc s))
     = [JStr (stamped ''user'' (Date_now E 0) ''@test.com'')]
   \<and> map (payload_field ''session_id'') (snd (callLearnAgent2 E um mc s))
     = [JStr (stamped (''learn-'' @ LEARN_AGENT_ID @ ''-'') (Date_now E 1) [])]
   \<and> map (payload_field ''user_id'') (snd (callEvalAgent E mc s))
     = [JStr (stamped ''user'' (Date_now E 0) ''@test.com'')]
   \<and> map (payload_field ''session_id'') (snd (callEvalAgent E mc s))
     = [JStr (stamped (''eval-'' @ EVAL_AGENT_ID @ ''-'') (Date_now E 1) [])]
   \<and> map (payload_field ''user_id'') (snd (generateAssessment E mc s))
     = [JStr (stamped ''hr_'' (Date_now E 0) (''_'' @ random_suffix E))]
   \<and> map (payload_field ''session_id'') (snd (generateAssessment E mc s))
     = [JStr (stamped (''eval_'' @ EVAL_AGENT_ID @ ''_'') (Date_now E 1) [])]
   \<and> map (payload_field ''user_id'') (snd (evaluateAssessment E mc ur h s))
     = [JStr (stamped ''student_'' (Date_now E 0) (''_'' @ random_suffix E))]
   \<and> map (payload_field ''session_id'') (snd (evaluateAssessment E mc ur h s))
     = [JStr (stamped (''eval_'' @ EVAL_AGENT_ID @ ''_'') (Date_now E 1) [])]
   \<and> map (payload_field ''user_id'') (snd (callAgent E cs a m))
     = [JStr (stamped ''user-'' (Date_now E 0) (''-'' @ random_suffix E))]
   \<and> map (payload_field ''session_id'') (snd (callAgent E cs a m)) = [JStr (sessionId cs)]
   \<and> sessionId (mount_session E cs) = stamped ''session-'' (Date_now E 0) (''-'' @ random_suffix E)
   \<and> delimited (''_'' @ r) \<and> delimited (''-'' @ r) \<and> delimited ''@test.com'' \<and> delimited []
   \<and> (delimited suf \<and> delimited suf' \<and> t \<noteq> t' \<longrightarrow> stamped pre t suf \<noteq> stamped pre t' suf')"
proof -
  have inj: "delimited suf \<and> delimited suf' \<and> t \<noteq> t' \<longrightarrow> stamped pre t suf \<noteq> stamped pre t' suf'"
    using stamped_inj [of suf suf' pre t t'] by blast
  have del: "delimited (''_'' @ r) \<and> delimited (''-'' @ r) \<and> delimited ''@test.com'' \<and> delimited []"
    by (simp add: delimited_def is_digit_def)
  have ids: "map (payload_field ''user_id'') (snd (callLearnAgent E um mc rt s))
     = [JStr (stamped ''user_'' (Date_now E 0) (''_'' @ random_suffix E))]
   \<and> map (payload_field ''session_id'') (snd (callLearnAgent E um mc rt s))
     = [JStr (stamped (''learn_'' @ LEARN_AGENT_ID @ ''_'') (Date_now E 1) [])]
   \<and> map (payload_field ''user_id'') (snd (callLearnAgent2 E um mc s))
     = [JStr (stamped ''user'' (Date_now E 0) ''@test.com'')]
   \<and> map (payload_field ''session_id'') (snd (callLearnAgent2 E um mc s))
     = [JStr (stamped (''learn-'' @ LEARN_AGENT_ID @ ''-'') (Date_now E 1) [])]
   \<and> map (payload_field ''user_id'') (snd (callEvalAgent E mc s))
     = [JStr (stamped ''user'' (Date_now E 0) ''@test.com'')]
   \<and> map (payload_field ''session_id'') (snd (callEvalAgent E mc s))
     = [JStr (stamped (''eval-'' @ EVAL_AGENT_ID @ ''-'') (Date_now E 1) [])]
   \<and> map (payload_field ''user_id'') (snd (generateAssessment E mc s))
     = [JStr (stamped ''hr_'' (Date_now E 0) (''_'' @ random_suffix E))]
   \<and> map (payload_field ''session_id'') (snd (generateAssessment E mc s))
     = [JStr (stamped (''eval_'' @ EVAL_AGENT_ID @ ''_'') (Date_now E 1) [])]
   \<and> map (payload_field ''user_id'') (snd (evaluateAssessment E mc ur h s))
     = [JStr (stamped ''student_'' (Date_now E 0) (''_'' @ random_suffix E))]
   \<and> map (payload_field ''session_id'') (snd (evaluateAssessment E mc ur h s))
     = [JStr (stamped (''eval_'' @ EVAL_AGENT_ID @ ''_'') (Date_now E 1) [])]
   \<and> map (payload_field ''user_id'') (snd (callAgent E cs a m))
     = [JStr (stamped ''user-'' (Date_now E 0) (''-'' @ random_suffix E))]
   \<and> map (payload_field ''session_id'') (snd (callAgent E cs a m)) = [JStr (sessionId cs)]
   \<and> sessionId (mount_session E cs) = stamped ''session-'' (Date_now E 0) (''-'' @ random_suffix E)"
    by (simp add: callLearnAgent_request callLearnAgent2_request callEvalAgent_request
          generateAssessment_request evaluateAssessment_request callAgent_request
          payload_field_post stamped_def mount_session_def)
  from ids del inj show ?thesis by blast
qed

theorem C5_ids_witness:
  "delimited ''_k3j9x0q1z'' \<and> delimited ''_a7b2c9d4e'' \<and> (1000::nat) \<noteq> 1001
   \<and> stamped ''user_'' 1000 ''_k3j9x0q1z'' \<noteq> stamped ''user_'' 1001 ''_a7b2c9d4e''"
proof -
  have a: "delimited ''_k3j9x0q1z'' \<and> delimited ''_a7b2c9d4e''"
    by (simp add: delimited_def is_digit_def)
  have b: "(1000::nat) \<noteq> 1001" by simp
  show ?thesis
    using a b
      C5_ids [of offline_env "''q''" "''c''" Qanda initial_state "[]" None lesson_state
        "''agent''" "''m''" "''r''" "''_k3j9x0q1z''" "''_a7b2c9d4e''" 1000 1001 "''user_''"]
    by simp
qed

subsection \<open>C3: fallbacks on failure\<close>

text \<open>
  C3, as stated, fails: in the course-based copy a question whose request fails leaves the
  question alone in the transcript; no placeholder message follows it.
\<close>

theorem C3_no_placeholder_counterexample:
  "fetch_result offline_env = NetworkError
   \<and> appended_contents (chatMessages lesson_state)
        (chatMessages (state_of (fst (handleLearningQuestion offline_env ''What is the first step?'' lesson_state))))
      = [JStr ''What is the first step?'']"
  by (simp add: handleLearningQuestion_on_failure [of _ fire_safety] lesson_state_def
        response_text_def offline_env_def)

text \<open>
  C3, amended: in the module-based application a failure is answered by a hard-coded
  fallback, and each call issues exactly one POST (nothing is retried). When the request
  throws, the body is not JSON or the helper throws, both \<open>callLearnAgent\<close>s and
  \<open>callEvalAgent\<close> append their fixed error message, \<open>generateAssessment\<close> stores its fixed
  one-question quiz and \<open>evaluateAssessment\<close> the default grade with score 60. When the
  reply parses but lacks the expected field, the first \<open>callLearnAgent\<close> appends its fixed
  placeholder, the second one "No response" provided the reply is not \<open>null\<close> or
  \<open>undefined\<close>, \<open>generateAssessment\<close> stores its other fixed quiz and \<open>evaluateAssessment\<close>
  the default grade with score 75. In the course-based copy \<open>handleLearningQuestion\<close>
  issues at most one POST, appends no assistant entry when \<open>callAgent\<close> fails, and appends
  a fixed placeholder when the reply has a \<open>result\<close> without a response text.
\<close>

theorem C3_fallbacks:
  "(Option.bind (response_json E) (parseLLMJson E) = None \<longrightarrow>
      appended_contents (agentChat s) (agentChat (fst (callLearnAgent E um mc rt s)))
        = [JStr um, JStr learn_error_message]
      \<and> appended_contents (agentChat s) (agentChat (state_of (fst (callLearnAgent2 E um mc s))))
        = [JStr um, JStr ''Sorry, I encountered an error processing your request.'']
      \<and> appended_contents (agentChat s) (agentChat (state_of (fst (callEvalAgent E mc s))))
        = [JStr ''Sorry, I encountered an error generating the assessment.'']
      \<and> currentQuiz (fst (fst (generateAssessment E mc s))) = Some fallbackQuestions_error
      \<and> gradeResults (fst (fst (evaluateAssessment E mc ur h s))) = Some grade_error)
   \<and> (Option.bind (response_json E) (parseLLMJson E) = Some p
        \<and> \<not> truthy (opt_chain (opt_chain p ''response'') ''content'') \<longrightarrow>
      appended_contents (agentChat s) (agentChat (fst (callLearnAgent E um mc rt s)))
        = [JStr um, JStr learn_placeholder])
   \<and> (Option.bind (response_json E) (parseLLMJson E) = Some p
        \<and> p \<noteq> JNull \<and> p \<noteq> JUndefined
        \<and> \<not> truthy (opt_chain (opt_chain p ''response'') ''content'') \<longrightarrow>
      appended_contents (agentChat s) (agentChat (state_of (fst (callLearnAgent2 E um mc s))))
        = [JStr um, JStr ''No response''])
   \<and> (Option.bind (response_json E) (parseLLMJson E) = Some p
        \<and> \<not> truthy (opt_chain (opt_chain p ''assessment'') ''questions'') \<longrightarrow>
      currentQuiz (fst (fst (generateAssessment E mc s))) = Some fallbackQuestions_default)
   \<and> (Option.bind (response_json E) (parseLLMJson E) = Some p
        \<and> \<not> truthy (opt_chain (opt_chain p ''assessment'') ''evaluation'') \<longrightarrow>
      gradeResults (fst (fst (evaluateAssessment E mc ur h s))) = Some grade_no_evaluation)
   \<and> length (snd (callLearnAgent E um mc rt s)) = 1
   \<and> length (snd (callLearnAgent2 E um mc s)) = 1
   \<and> length (snd (callEvalAgent E mc s)) = 1
   \<and> length (snd (generateAssessment E mc s)) = 1
   \<and> length (snd (evaluateAssessment E mc ur h s)) = 1
   \<and> length (snd (callAgent E cs a m)) = 1
   \<and> length (snd (handleLearningQuestion E q cs)) \<le> 1
   \<and> (currentLesson cs = Some l
        \<and> Option.bind (response_text E) (\<lambda>data. parseLLMJson E (JStr data)) = None \<longrightarrow>
      appended_contents (chatMessages cs) (chatMessages (state_of (fst (handleLearningQuestion E q cs))))
        = [JStr q])
   \<and> (currentLesson cs = Some l
        \<and> Option.bind (response_text E) (\<lambda>data. parseLLMJson E (JStr data)) = Some p'
        \<and> truthy p' \<and> truthy (opt_chain p' ''result'')
        \<and> \<not> truthy (opt_chain (opt_chain p' ''result'') ''response'') \<longrightarrow>
      appended_contents (chatMessages cs) (chatMessages (state_of (fst (handleLearningQuestion E q cs))))
        = [JStr q, JStr ''I could not process your question at the moment.''])"
proof -
  have throw: "Option.bind (response_json E) (parseLLMJson E) = None \<longrightarrow>
      appended_contents (agentChat s) (agentChat (fst (callLearnAgent E um mc rt s)))
        = [JStr um, JStr learn_error_message]
      \<and> appended_contents (agentChat s) (agentChat (state_of (fst (callLearnAgent2 E um mc s))))
        = [JStr um, JStr ''Sorry, I encountered an error processing your request.'']
      \<and> appended_contents (agentChat s) (agentChat (state_of (fst (callEvalAgent E mc s))))
        = [JStr ''Sorry, I encountered an error generating the assessment.'']
      \<and> currentQuiz (fst (fst (generateAssessment E mc s))) = Some fallbackQuestions_error
      \<and> gradeResults (fst (fst (evaluateAssessment E mc ur h s))) = Some grade_error"
    by (simp add: callLearnAgent_on_throw callLearnAgent2_on_throw callEvalAgent_on_throw
          generateAssessment_on_throw evaluateAssessment_on_throw)
  have learn: "Option.bind (response_json E) (parseLLMJson E) = Some p
        \<and> \<not> truthy (opt_chain (opt_chain p ''response'') ''content'') \<longrightarrow>
      appended_contents (agentChat s) (agentChat (fst (callLearnAgent E um mc rt s)))
        = [JStr um, JStr learn_placeholder]"
    using callLearnAgent_on_missing [of E p s um mc rt] by blast
  have learn2: "Option.bind (response_json E) (parseLLMJson E) = Some p
        \<and> p \<noteq> JNull \<and> p \<noteq> JUndefined
        \<and> \<not> truthy (opt_chain (opt_chain p ''response'') ''content'') \<longrightarrow>
      appended_contents (agentChat s) (agentChat (state_of (fst (callLearnAgent2 E um mc s))))
        = [JStr um, JStr ''No response'']"
    using callLearnAgent2_on_missing [of E p s um mc] by blast
  have quiz: "Option.bind (response_json E) (parseLLMJson E) = Some p
        \<and> \<not> truthy (opt_chain (opt_chain p ''assessment'') ''questions'') \<longrightarrow>
      currentQuiz (fst (fst (generateAssessment E mc s))) = Some fallbackQuestions_default"
    using generateAssessment_on_missing [of E p mc s] by blast
  have grade: "Option.bind (response_json E) (parseLLMJson E) = Some p
        \<and> \<not> truthy (opt_chain (opt_chain p ''assessment'') ''evaluation'') \<longrightarrow>
      gradeResults (fst (fst (evaluateAssessment E mc ur h s))) = Some grade_no_evaluation"
    using evaluateAssessment_on_missing [of E p mc ur h s] by blast
  have once: "length (snd (callLearnAgent E um mc rt s)) = 1
   \<and> length (snd (callLearnAgent2 E um mc s)) = 1
   \<and> length (snd (callEvalAgent E mc s)) = 1
   \<and> length (snd (generateAssessment E mc s)) = 1
   \<and> length (snd (evaluateAssessment E mc ur h s)) = 1
   \<and> length (snd (callAgent E cs a m)) = 1
   \<and> length (snd (handleLearningQuestion E q cs)) \<le> 1"
    using handleLearningQuestion_requests [of E q cs]
    by (simp add: callLearnAgent_request callLearnAgent2_request callEvalAgent_request
          generateAssessment_request evaluateAssessment_request callAgent_request)
  have silent: "currentLesson cs = Some l
        \<and> Option.bind (response_text E) (\<lambda>data. parseLLMJson E (JStr data)) = None \<longrightarrow>
      appended_contents (chatMessages cs) (chatMessages (state_of (fst (handleLearningQuestion E q cs))))
        = [JStr q]"
    by (simp add: handleLearningQuestion_on_failure [of cs l E q])
  have course: "currentLesson cs = Some l
        \<and> Option.bind (response_text E) (\<lambda>data. parseLLMJson E (JStr data)) = Some p'
        \<and> truthy p' \<and> truthy (opt_chain p' ''result'')
        \<and> \<not> truthy (opt_chain (opt_chain p' ''result'') ''response'') \<longrightarrow>
      appended_contents (chatMessages cs) (chatMessages (state_of (fst (handleLearningQuestion E q cs))))
        = [JStr q, JStr ''I could not process your question at the moment.'']"
    using handleLearningQuestion_on_missing [of cs l E p' q] by blast
  from throw learn learn2 quiz grade once silent course show ?thesis by blast
qed

theorem C3_fallbacks_witness:
  "Option.bind (response_json offline_env) (parseLLMJson offline_env) = None
   \<and> appended_contents (agentChat initial_state)
        (agentChat (fst (callLearnAgent offline_env ''Why?'' ''Fire safety'' Qanda initial_state)))
      = [JStr ''Why?'', JStr learn_error_message]
   \<and> appended_contents (agentChat initial_state)
        (agentChat (state_of (fst (callLearnAgent2 offline_env ''Why?'' ''Fire safety'' initial_state))))
      = [JStr ''Why?'', JStr ''Sorry, I encountered an error processing your request.'']
   \<and> gradeResults (fst (fst (evaluateAssessment offline_env ''Fire safety'' [] None initial_state)))
      = Some grade_error
   \<and> Option.bind (response_json (reply_env (JObj []))) (parseLLMJson (reply_env (JObj [])))
      = Some (JObj [])
   \<and> JObj [] \<noteq> JNull \<and> JObj [] \<noteq> JUndefined
   \<and> \<not> truthy (opt_chain (opt_chain (JObj []) ''response'') ''content'')
   \<and> \<not> truthy (opt_chain (opt_chain (JObj []) ''assessment'') ''questions'')
   \<and> \<not> truthy (opt_chain (opt_chain (JObj []) ''assessment'') ''evaluation'')
   \<and> appended_contents (agentChat initial_state)
        (agentChat (fst (callLearnAgent (reply_env (JObj [])) ''Why?'' ''Fire safety'' Qanda initial_state)))
      = [JStr ''Why?'', JStr learn_placeholder]
   \<and> appended_contents (agentChat initial_state)
        (agentChat (state_of (fst (callLearnAgent2 (reply_env (JObj [])) ''Why?'' ''Fire safety'' initial_state))))
      = [JStr ''Why?'', JStr ''No response'']
   \<and> currentQuiz (fst (fst (generateAssessment (reply_env (JObj [])) ''Fire safety'' initial_state)))
      = Some fallbackQuestions_default
   \<and> gradeResults (fst (fst (evaluateAssessment (reply_env (JObj [])) ''Fire safety'' [] None initial_state)))
      = Some grade_no_evaluation
   \<and> currentLesson lesson_state = Some fire_safety
   \<and> Option.bind (response_text offline_env) (\<lambda>data. parseLLMJson offline_env (JStr data)) = None
   \<and> appended_contents (chatMessages lesson_state)
        (chatMessages (state_of (fst (handleLearningQuestion offline_env ''Why?'' lesson_state))))
      = [JStr ''Why?'']
   \<and> Option.bind (response_text (reply_env reply_result_only))
        (\<lambda>data. parseLLMJson (reply_env reply_result_only) (JStr data)) = Some reply_result_only
   \<and> truthy reply_result_only \<and> truthy (opt_chain reply_result_only ''result'')
   \<and> \<not> truthy (opt_chain (opt_chain reply_result_only ''result'') ''response'')
   \<and> appended_contents (chatMessages lesson_state)
        (chatMessages (state_of (fst (handleLearningQuestion (reply_env reply_result_only) ''Why?'' lesson_state))))
      = [JStr ''Why?'', JStr ''I could not process your question at the moment.'']"
proof -
  have a: "Option.bind (response_json offline_env) (parseLLMJson offline_env) = None"
    by (simp add: response_json_def offline_env_def)
  have b: "Option.bind (response_json (reply_env (JObj []))) (parseLLMJson (reply_env (JObj [])))
      = Some (JObj [])"
    by (simp add: response_json_def reply_env_def)
  have c: "JObj [] \<noteq> JNull \<and> JObj [] \<noteq> JUndefined
   \<and> \<not> truthy (opt_chain (opt_chain (JObj []) ''response'') ''content'')
   \<and> \<not> truthy (opt_chain (opt_chain (JObj []) ''assessment'') ''questions'')
   \<and> \<not> truthy (opt_chain (opt_chain (JObj []) ''assessment'') ''evaluation'')"
    by (simp add: opt_chain_def)
  have d: "currentLesson lesson_state = Some fire_safety"
    by (simp add: lesson_state_def)
  have e: "Option.bind (response_text offline_env) (\<lambda>data. parseLLMJson offline_env (JStr data)) = None"
    by (simp add: response_text_def offline_env_def)
  have f: "Option.bind (response_text (reply_env reply_result_only))
        (\<lambda>data. parseLLMJson (reply_env reply_result_only) (JStr data)) = Some reply_result_only"
    by (simp add: response_text_def reply_env_def)
  have g: "truthy reply_result_only \<and> truthy (opt_chain reply_result_only ''result'')
   \<and> \<not> truthy (opt_chain (opt_chain reply_result_only ''result'') ''response'')"
    by (simp add: reply_result_only_def opt_chain_def)
  note t1 = C3_fallbacks [where E = offline_env and s = initial_state and um = "''Why?''"
      and mc = "''Fire safety''" and rt = Qanda and ur = "[]" and h = None
      and cs = lesson_state and l = fire_safety and q = "''Why?''"]
  note t2 = C3_fallbacks [where E = "reply_env (JObj [])" and s = initial_state and um = "''Why?''"
      and mc = "''Fire safety''" and rt = Qanda and ur = "[]" and h = None and p = "JObj []"]
  note t3 = C3_fallbacks [where E = "reply_env reply_result_only" and cs = lesson_state
      and l = fire_safety and q = "''Why?''" and p' = reply_result_only]
  from a t1 have r1: "appended_contents (agentChat initial_state)
        (agentChat (fst (callLearnAgent offline_env ''Why?'' ''Fire safety'' Qanda initial_state)))
      = [JStr ''Why?'', JStr learn_error_message]
    \<and> appended_contents (agentChat initial_state)
        (agentChat (state_of (fst (callLearnAgent2 offline_env ''Why?'' ''Fire safety'' initial_state))))
      = [JStr ''Why?'', JStr ''Sorry, I encountered an error processing your request.'']
    \<and> gradeResults (fst (fst (evaluateAssessment offline_env ''Fire safety'' [] None initial_state)))
      = Some grade_error"
    by blast
  from b c t2 have r2: "appended_contents (agentChat initial_state)
        (agentChat (fst (callLearnAgent (reply_env (JObj [])) ''Why?'' ''Fire safety'' Qanda initial_state)))
      = [JStr ''Why?'', JStr learn_placeholder]
    \<and> appended_contents (agentChat initial_state)
        (agentChat (state_of (fst (callLearnAgent2 (reply_env (JObj [])) ''Why?'' ''Fire safety'' initial_state))))
      = [JStr ''Why?'', JStr ''No response'']
    \<and> currentQuiz (fst (fst (generateAssessment (reply_env (JObj [])) ''Fire safety'' initial_state)))
      = Some fallbackQuestions_default
    \<and> gradeResults (fst (fst (evaluateAssessment (reply_env (JObj [])) ''Fire safety'' [] None initial_state)))
      = Some grade_no_evaluation"
    by blast
  from d e t1 have r3: "appended_contents (chatMessages lesson_state)
        (chatMessages (state_of (fst (handleLearningQuestion offline_env ''Why?'' lesson_state))))
      = [JStr ''Why?'']"
    by blast
  from d f g t3 have r4: "appended_contents (chatMessages lesson_state)
        (chatMessages (state_of (fst (handleLearningQuestion (reply_env reply_result_only) ''Why?'' lesson_state))))
      = [JStr ''Why?'', JStr ''I could not process your question at the moment.'']"
    by blast
  from a b c d e f g r1 r2 r3 r4 show ?thesis by blast
qed

subsection \<open>C6: the stored grade\<close>

text \<open>
  C6, as stated, fails: an evaluation whose feedback is present but empty is stored with
  the default thank-you text, not with its own feedback.
\<close>

theorem C6_empty_feedback_counterexample:
  "opt_chain (opt_chain (opt_chain reply_empty_feedback ''assessment'') ''evaluation'') ''feedback''
     = JStr []
   \<and> map_option g_feedback
        (gradeResults (fst (fst (evaluateAssessment (reply_env reply_empty_feedback) ''Fire safety''
                                   [(''q1'', JStr ''yes'')] None initial_state))))
     = Some (JStr thank_you)
   \<and> JStr thank_you \<noteq> JStr []"
  by (simp add: evaluateAssessment_def Let_def response_json_def reply_env_def
        reply_empty_feedback_def opt_chain_def js_or_def thank_you_def)

text \<open>
  C6, amended: when the parsed reply holds an \<open>assessment.evaluation\<close> object,
  \<open>evaluateAssessment\<close> stores a grade whose total is 100 and whose other fields are the
  evaluation's, each replaced by its default when falsy (\<open>x || default\<close>): the score is
  \<open>evaluation.score\<close> when that is a number and 0 when absent; the feedback is
  \<open>evaluation.feedback\<close> when that is a non-empty string and the thank-you text when absent
  or empty; the gaps are \<open>evaluation.gaps_identified\<close> when that is an array and the empty
  list when absent.
\<close>

theorem C6_grade_result:
  assumes "Option.bind (response_json E) (parseLLMJson E) = Some p"
    and "opt_chain (opt_chain p ''assessment'') ''evaluation'' = JObj ev"
  shows "gradeResults (fst (fst (evaluateAssessment E mc ur h s))) =
           Some \<lparr>g_score = js_or (opt_chain (JObj ev) ''score'') (JNum 0), g_total = 100,
                 g_feedback = js_or (opt_chain (JObj ev) ''feedback'') (JStr thank_you),
                 g_gaps = js_or (opt_chain (JObj ev) ''gaps_identified'') (JArr [])\<rparr>
         \<and> (map_of ev ''score'' = None \<longrightarrow>
               map_option g_score (gradeResults (fst (fst (evaluateAssessment E mc ur h s)))) = Some (JNum 0))
         \<and> (map_of ev ''score'' = Some (JNum n) \<longrightarrow>
               map_option g_score (gradeResults (fst (fst (evaluateAssessment E mc ur h s)))) = Some (JNum n))
         \<and> (map_of ev ''feedback'' = None \<or> map_of ev ''feedback'' = Some (JStr []) \<longrightarrow>
               map_option g_feedback (gradeResults (fst (fst (evaluateAssessment E mc ur h s))))
                 = Some (JStr thank_you))
         \<and> (map_of ev ''feedback'' = Some (JStr f) \<and> f \<noteq> [] \<longrightarrow>
               map_option g_feedback (gradeResults (fst (fst (evaluateAssessment E mc ur h s))))
                 = Some (JStr f))
         \<and> (map_of ev ''gaps_identified'' = None \<longrightarrow>
               map_option g_gaps (gradeResults (fst (fst (evaluateAssessment E mc ur h s)))) = Some (JArr []))
         \<and> (map_of ev ''gaps_identified'' = Some (JArr gs) \<longrightarrow>
               map_option g_gaps (gradeResults (fst (fst (evaluateAssessment E mc ur h s)))) = Some (JArr gs))"
proof -
  have g: "gradeResults (fst (fst (evaluateAssessment E mc ur h s))) =
           Some \<lparr>g_score = js_or (opt_chain (JObj ev) ''score'') (JNum 0), g_total = 100,
                 g_feedback = js_or (opt_chain (JObj ev) ''feedback'') (JStr thank_you),
                 g_gaps = js_or (opt_chain (JObj ev) ''gaps_identified'') (JArr [])\<rparr>"
    using evaluateAssessment_on_evaluation [OF assms(1) assms(2)] by simp
  show ?thesis
    unfolding g by (auto simp: js_or_def opt_chain_def)
qed

theorem C6_grade_result_witness:
  "Option.bind (response_json (reply_env reply_graded)) (parseLLMJson (reply_env reply_graded))
     = Some reply_graded
   \<and> gradeResults (fst (fst (evaluateAssessment (reply_env reply_graded) ''Fire safety''
                               [(''q1'', JStr ''yes'')] None initial_state)))
     = Some \<lparr>g_score = JNum 92, g_total = 100, g_feedback = JStr ''Well done'',
             g_gaps = JArr [JObj [(''topic'', JStr ''Exits''),
                                  (''recommendation'', JStr ''Review the evacuation plan'')]]\<rparr>
   \<and> Option.bind (response_json (reply_env reply_bare_evaluation))
        (parseLLMJson (reply_env reply_bare_evaluation)) = Some reply_bare_evaluation
   \<and> gradeResults (fst (fst (evaluateAssessment (reply_env reply_bare_evaluation) ''Fire safety''
                               [(''q1'', JStr ''yes'')] None initial_state)))
     = Some \<lparr>g_score = JNum 0, g_total = 100, g_feedback = JStr thank_you, g_gaps = JArr []\<rparr>"
proof -
  have a: "Option.bind (response_json (reply_env reply_graded)) (parseLLMJson (reply_env reply_graded))
     = Some reply_graded"
    by (simp add: response_json_def reply_env_def)
  have b: "opt_chain (opt_chain reply_graded ''assessment'') ''evaluation''
     = JObj [(''score'', JNum 92), (''feedback'', JStr ''Well done''),
             (''gaps_identified'',
                JArr [JObj [(''topic'', JStr ''Exits''),
                            (''recommendation'', JStr ''Review the evacuation plan'')]])]"
    by (simp add: reply_graded_def opt_chain_def)
  have c: "Option.bind (response_json (reply_env reply_bare_evaluation))
        (parseLLMJson (reply_env reply_bare_evaluation)) = Some reply_bare_evaluation"
    by (simp add: response_json_def reply_env_def)
  have d: "opt_chain (opt_chain reply_bare_evaluation ''assessment'') ''evaluation'' = JObj []"
    by (simp add: reply_bare_evaluation_def opt_chain_def)
  show ?thesis
    using a c
      C6_grade_result [OF a b, where n = 92 and f = "''Well done''"
        and gs = "[JObj [(''topic'', JStr ''Exits''), (''recommendation'', JStr ''Review the evacuation plan'')]]"
        and mc = "''Fire safety''" and ur = "[(''q1'', JStr ''yes'')]" and h = None
        and s = initial_state]
      C6_grade_result [OF c d, where n = 0 and f = "[]" and gs = "[]"
        and mc = "''Fire safety''" and ur = "[(''q1'', JStr ''yes'')]" and h = None
        and s = initial_state]
    by (simp add: js_or_def opt_chain_def)
qed

subsection \<open>C8: enrolling twice\<close>

text \<open>
  C8, as stated, fails: the second definition of \<open>enrollInModule\<close> appends a record for a
  module the user is already enrolled in.
\<close>

theorem C8_duplicate_enrollment_counterexample:
  "already_enrolled enrolled_state ''m1''
   \<and> length (enrollments enrolled_state) = 1
   \<and> map_option (\<lambda>s'. length (enrollments s')) (enrollInModule2 offline_env ''m1'' enrolled_state)
       = Some 2"
  by (simp add: already_enrolled_def is_current_user_def enrollInModule2_def enrolled_state_def
        initial_state_def alice_def first_enrollment_def Let_def)

text \<open>
  C8, amended: the first definition of \<open>enrollInModule\<close> leaves the state, and with it the
  enrollment array, unchanged when the signed-in user already has an enrollment for the
  module, and it keeps an array without duplicate user-module pairs free of them. The
  second definition (and the other copy's) has no such guard and appends one record at
  every call; there the dashboard offers enrolling only for modules the signed-in user has
  no enrollment for.
\<close>

theorem C8_enrollment_guard:
  "(already_enrolled s mid \<longrightarrow> enrollInModule stringify E mid s = Some s)
   \<and> (distinct (map (\<lambda>e. (userId e, moduleId e)) (enrollments s))
        \<and> enrollInModule stringify E mid s = Some s' \<longrightarrow>
      distinct (map (\<lambda>e. (userId e, moduleId e)) (enrollments s')))
   \<and> (currentUser s = Some u \<longrightarrow>
      map_option (\<lambda>s'. length (enrollments s')) (enrollInModule2 E mid s)
        = Some (length (enrollments s) + 1))
   \<and> (m \<in> set (availableModules s) \<longrightarrow> \<not> already_enrolled s (m_id m))"
proof (intro conjI impI)
  assume "already_enrolled s mid"
  then show "enrollInModule stringify E mid s = Some s"
    by (auto simp: already_enrolled_def enrollInModule_def list_ex_iff Let_def)
next
  assume h: "distinct (map (\<lambda>e. (userId e, moduleId e)) (enrollments s))
        \<and> enrollInModule stringify E mid s = Some s'"
  show "distinct (map (\<lambda>e. (userId e, moduleId e)) (enrollments s'))"
  proof (cases "list_ex (\<lambda>e. moduleId e = mid) (filter (is_current_user s) (enrollments s))")
    case True
    with h have "s' = s" by (simp add: enrollInModule_def Let_def)
    with h show ?thesis by simp
  next
    case False
    with h obtain u where u: "currentUser s = Some u"
      by (cases "currentUser s") (simp_all add: enrollInModule_def Let_def)
    from False u have fresh: "(u_id u, mid) \<notin> set (map (\<lambda>e. (userId e, moduleId e)) (enrollments s))"
      by (auto simp: list_ex_iff is_current_user_def)
    from h False u fresh show ?thesis
      by (auto simp: enrollInModule_def Let_def)
  qed
next
  assume "currentUser s = Some u"
  then show "map_option (\<lambda>s'. length (enrollments s')) (enrollInModule2 E mid s)
        = Some (length (enrollments s) + 1)"
    by (simp add: enrollInModule2_def Let_def)
next
  assume "m \<in> set (availableModules s)"
  then show "\<not> already_enrolled s (m_id m)"
    by (auto simp: availableModules_def already_enrolled_def list_ex_iff Let_def)
qed

theorem C8_enrollment_guard_witness:
  "already_enrolled browsing_state ''m1''
   \<and> enrollInModule demo_stringify offline_env ''m1'' browsing_state = Some browsing_state
   \<and> distinct (map (\<lambda>e. (userId e, moduleId e)) (enrollments browsing_state))
   \<and> currentUser browsing_state = Some alice
   \<and> map_option (\<lambda>s'. length (enrollments s')) (enrollInModule2 offline_env ''m1'' browsing_state)
       = Some (length (enrollments browsing_state) + 1)
   \<and> second_module \<in> set (availableModules browsing_state)
   \<and> \<not> already_enrolled browsing_state (m_id second_module)"
proof -
  have a: "already_enrolled browsing_state ''m1''"
    by (simp add: already_enrolled_def is_current_user_def browsing_state_def enrolled_state_def
          initial_state_def alice_def first_enrollment_def)
  have b: "distinct (map (\<lambda>e. (userId e, moduleId e)) (enrollments browsing_state))"
    by (simp add: browsing_state_def enrolled_state_def initial_state_def)
  have c: "currentUser browsing_state = Some alice"
    by (simp add: browsing_state_def enrolled_state_def initial_state_def)
  have d: "second_module \<in> set (availableModules browsing_state)"
    by (simp add: availableModules_def is_current_user_def browsing_state_def enrolled_state_def
          initial_state_def alice_def first_enrollment_def second_module_def Let_def)
  show ?thesis
    using a b c d
      C8_enrollment_guard [of browsing_state "''m1''" demo_stringify offline_env browsing_state
        alice second_module]
    by simp
qed

subsection \<open>C10: the quiz after \<open>generateAssessment\<close>\<close>

text \<open>
  On every path \<open>generateAssessment\<close> stores a quiz and returns that same list, and the
  list is empty only when the reply carries an array of questions that is itself empty.
\<close>

lemma generated_questions_length:
  "generated_questions E i qs = Some gen \<Longrightarrow> length gen = length qs"
  by (induction qs arbitrary: i gen) (auto split: option.splits)

lemma generateAssessment_stores_returned:
  "currentQuiz (fst (fst (generateAssessment E mc s))) = Some (snd (fst (generateAssessment E mc s)))"
  by (simp add: generateAssessment_def generateAssessment_try_def Let_def split: option.split)

lemma generateAssessment_empty_only_if:
  assumes "snd (fst (generateAssessment E mc s)) = []"
  shows "\<exists>p. Option.bind (response_json E) (parseLLMJson E) = Some p
           \<and> opt_chain (opt_chain p ''assessment'') ''questions'' = JArr []"
proof (cases "Option.bind (response_json E) (parseLLMJson E)")
  case None
  with assms show ?thesis
    by (simp add: generateAssessment_def generateAssessment_try_def Let_def fallbackQuestions_error_def)
next
  case (Some p)
  show ?thesis
  proof (cases "truthy (opt_chain (opt_chain p ''assessment'') ''questions'')")
    case False
    with Some assms show ?thesis
      by (simp add: generateAssessment_def generateAssessment_try_def Let_def
            fallbackQuestions_default_def)
  next
    case True
    show ?thesis
    proof (cases "js_map_questions E (opt_chain (opt_chain p ''assessment'') ''questions'')")
      case None
      with Some True assms show ?thesis
        by (simp add: generateAssessment_def generateAssessment_try_def Let_def
              fallbackQuestions_error_def)
    next
      case (Some gen)
      with \<open>Option.bind (response_json E) (parseLLMJson E) = Some p\<close> True assms
      have "gen = []"
        by (simp add: generateAssessment_def generateAssessment_try_def Let_def)
      with Some obtain qs where
        "opt_chain (opt_chain p ''assessment'') ''questions'' = JArr qs"
        "generated_questions E 0 qs = Some []"
        by (auto simp: js_map_questions_def split: js.splits)
      then have "opt_chain (opt_chain p ''assessment'') ''questions'' = JArr []"
        using generated_questions_length by fastforce
      with \<open>Option.bind (response_json E) (parseLLMJson E) = Some p\<close> show ?thesis by blast
    qed
  qed
qed

text \<open>
  C10 at its failing input: the agent's reply carries an empty array of questions. The
  array is truthy, so no fallback is taken: the stored quiz is the empty list, and the
  empty list is returned.
\<close>

theorem C10_empty_question_list:
  "opt_chain (opt_chain reply_no_questions ''assessment'') ''questions'' = JArr []
   \<and> currentQuiz (fst (fst (generateAssessment (reply_env reply_no_questions) ''Fire safety'' initial_state)))
       = Some []
   \<and> snd (fst (generateAssessment (reply_env reply_no_questions) ''Fire safety'' initial_state)) = []"
  by (simp add: generateAssessment_def generateAssessment_try_def js_map_questions_def Let_def
        response_json_def reply_env_def reply_no_questions_def opt_chain_def)

subsection \<open>C2: storage mirrors the arrays\<close>

text \<open>
  The first definitions write the array they have just set; the effects of the other copy
  write the array of the state they run in.
\<close>

lemma createModule_mirror:
  "createModule stringify E s = Some s' \<Longrightarrow>
   localStorage s' ''hr_modules_v2'' = Some (stringify (modules s'))"
  by (auto simp: createModule_def Let_def split: option.splits)

lemma enrollInModule_mirror:
  "enrollInModule stringify E mid s = Some s' \<Longrightarrow> \<not> already_enrolled s mid \<Longrightarrow>
   localStorage s' ''hr_enrollments_v2'' = Some (stringify (enrollments s'))"
  by (auto simp: enrollInModule_def already_enrolled_def list_ex_iff Let_def
        split: option.splits if_splits)

lemma updateProgress_mirror:
  "localStorage (updateProgress stringify E i p s) ''hr_enrollments_v2''
     = Some (stringify (enrollments (updateProgress stringify E i p s)))"
  by (simp add: updateProgress_def Let_def)

lemma completeEnrollment_mirror:
  "localStorage (completeEnrollment stringify E i sc ans s) ''hr_enrollments_v2''
     = Some (stringify (enrollments (completeEnrollment stringify E i sc ans s)))"
  by (simp add: completeEnrollment_def Let_def)

lemma save_effects_mirror:
  "localStorage (save_modules_effect stringify_m s) ''hr_modules''
     = Some (stringify_m (modules (save_modules_effect stringify_m s)))"
  "localStorage (save_enrollments_effect stringify_e s) ''hr_enrollments''
     = Some (stringify_e (enrollments (save_enrollments_effect stringify_e s)))"
  by (simp_all add: save_modules_effect_def save_enrollments_effect_def)

text \<open>The second definitions never touch storage.\<close>

lemma second_definitions_leave_storage:
  "localStorage (updateProgress2 i p s) = localStorage s"
  "enrollInModule2 E mid s = Some s' \<Longrightarrow> localStorage s' = localStorage s"
  by (auto simp: updateProgress2_def enrollInModule2_def Let_def split: option.splits)

text \<open>
  C2 at its failing input: storage mirrors the array holding Alice's enrollment; the
  second definition of \<open>updateProgress\<close> then sets the progress to 50 in memory, and
  storage still holds the serialization of the old array, which differs from that of the
  new one. In the file that holds this definition next to the first one, no effect writes
  the arrays to storage.
\<close>

theorem C2_second_updateProgress_stale_storage:
  "localStorage enrolled_state ''hr_enrollments_v2''
     = Some (demo_stringify (enrollments enrolled_state))
   \<and> localStorage (updateProgress2 ''e1'' 50 enrolled_state) ''hr_enrollments_v2''
     = Some (demo_stringify (enrollments enrolled_state))
   \<and> map progress (enrollments enrolled_state) = [0]
   \<and> map progress (enrollments (updateProgress2 ''e1'' 50 enrolled_state)) = [50]
   \<and> demo_stringify (enrollments (updateProgress2 ''e1'' 50 enrolled_state))
     \<noteq> demo_stringify (enrollments enrolled_state)"
proof -
  have "show_nat 50 \<noteq> show_nat 0"
    using show_nat_inj [of 50 0] by auto
  then show ?thesis
    by (simp add: updateProgress2_def enrolled_state_def initial_state_def first_enrollment_def
          demo_stringify_def)
qed

end
